theory Spec2Isabelle
  imports Main "HOL-Library.Word"
begin

section \<open>Machine types of \<^verbatim>\<open>how_fast_is_server.c\<close>\<close>

text \<open>
  The program is built for an LP64 platform: \<^verbatim>\<open>long\<close>, \<^verbatim>\<open>time_t\<close>,
  \<^verbatim>\<open>curl_off_t\<close> and \<^verbatim>\<open>int_fast64_t\<close> are 64-bit two's complement, \<^verbatim>\<open>int\<close> is
  32-bit. Arithmetic on words wraps; \<open>sint\<close> reads the signed value.
\<close>

type_synonym long = "64 word"
type_synonym cint = "32 word"

text \<open>\<^verbatim>\<open>struct timespec\<close>\<close>

record timespec =
  tv_sec :: long
  tv_nsec :: long

text \<open>
  \<^verbatim>\<open>timespec_diff_macro(a, b, result)\<close>, lines 40-48: both fields are subtracted, and a
  negative nanosecond field borrows one second.
\<close>

definition timespec_diff_macro :: "timespec \<Rightarrow> timespec \<Rightarrow> timespec" where
  "timespec_diff_macro a b =
     (let result = \<lparr>tv_sec = tv_sec a - tv_sec b, tv_nsec = tv_nsec a - tv_nsec b\<rparr>
      in if tv_nsec result <s 0
         then result\<lparr>tv_sec := tv_sec result - 1, tv_nsec := tv_nsec result + 1000000000\<rparr>
         else result)"

section \<open>Formatted output\<close>

text \<open>
  The conversions of \<^verbatim>\<open>printf\<close> that the program uses: \<^verbatim>\<open>%d\<close> and \<^verbatim>\<open>%ld\<close> (signed
  decimal), \<^verbatim>\<open>%09ld\<close> and \<^verbatim>\<open>%06ld\<close> (signed decimal, padded with zeros after the sign up
  to the field width) and \<^verbatim>\<open>%s\<close>.
\<close>

abbreviation NL :: char where
  "NL \<equiv> CHR 0x0A"

abbreviation TAB :: char where
  "TAB \<equiv> CHR 0x09"

definition digit :: "nat \<Rightarrow> char" where
  "digit d = ''0123456789'' ! d"

fun decimal :: "nat \<Rightarrow> string" where
  "decimal n = (if n < 10 then [digit n] else decimal (n div 10) @ [digit (n mod 10)])"

declare decimal.simps [simp del]

definition printf_ld :: "int \<Rightarrow> string" where
  "printf_ld v = (if v < 0 then CHR ''-'' # decimal (nat (- v)) else decimal (nat v))"

definition printf_0ld :: "nat \<Rightarrow> int \<Rightarrow> string" where
  "printf_0ld width v =
     (let ds = decimal (nat \<bar>v\<bar>);
          sign = (if v < 0 then ''-'' else [])
      in sign @ replicate (width - length sign - length ds) (CHR ''0'') @ ds)"

text \<open>\<^verbatim>\<open>%s\<close> of a \<^verbatim>\<open>char*\<close>; glibc prints a null pointer as \<^verbatim>\<open>(null)\<close>.\<close>

definition printf_s :: "string option \<Rightarrow> string" where
  "printf_s p = (case p of None \<Rightarrow> ''(null)'' | Some s \<Rightarrow> s)"

text \<open>
  \<^verbatim>\<open>strrchr(s, c)\<close> for a character \<open>c\<close> other than the terminator: the offset of the
  last occurrence of \<open>c\<close> in \<open>s\<close>, or a null pointer.
\<close>

fun strrchr :: "string \<Rightarrow> char \<Rightarrow> nat option" where
  "strrchr [] c = None"
| "strrchr (x # xs) c =
     (case strrchr xs c of
        Some k \<Rightarrow> Some (Suc k)
      | None \<Rightarrow> if x = c then Some 0 else None)"

section \<open>Data\<close>

text \<open>\<^verbatim>\<open>struct configuration\<close>, lines 53-60. A \<^verbatim>\<open>char*\<close> is \<open>None\<close> when null.\<close>

record configuration =
  program_name :: "string option"
  url :: "string option"
  number_of_runs :: long
  silent :: cint
  program_start :: timespec
  program_end :: timespec

text \<open>
  \<^verbatim>\<open>struct thread_info\<close>, lines 62-74. \<open>curl_error_string\<close> holds the C string stored
  in the \<^verbatim>\<open>char[CURL_ERROR_SIZE]\<close> buffer (its bytes up to the terminator).
\<close>

record thread_info =
  thread_id :: "64 word"
  thread_num :: cint
  url :: "string option"
  start :: timespec
  end' :: timespec
  response_code :: long
  os_error_code :: long
  curl_error_code :: long
  curl_error_string :: string
  curl_total :: long

text \<open>One element of the array returned by \<^verbatim>\<open>calloc\<close>: every byte is zero.\<close>

definition calloc_thread_info :: thread_info where
  "calloc_thread_info =
     \<lparr>thread_id = 0, thread_num = 0, url = None,
      start = \<lparr>tv_sec = 0, tv_nsec = 0\<rparr>, end' = \<lparr>tv_sec = 0, tv_nsec = 0\<rparr>,
      response_code = 0, os_error_code = 0, curl_error_code = 0,
      curl_error_string = [], curl_total = 0\<rparr>"

section \<open>The environment\<close>

text \<open>
  What the program reads from outside: the clock, libcurl, the allocator and the thread
  library. A transfer is what libcurl reports for one \<^verbatim>\<open>curl_easy_perform\<close> on a fresh
  handle: the \<^verbatim>\<open>CURLcode\<close> (an enumeration without negative values, widened to
  \<^verbatim>\<open>long\<close> when it is stored), the contents it leaves in the error buffer (empty when it
  writes nothing), and the three values read back with \<^verbatim>\<open>curl_easy_getinfo\<close>.
\<close>

record transfer =
  curl_result :: cint
  error_buffer :: string
  total_time_t :: long
  http_code :: long
  os_errno :: long

record worker_env =
  clock_start :: timespec
  easy_init :: "transfer option"
  clock_end :: timespec

record environment =
  clock_program_start :: timespec
  calloc_ok :: bool
  create_result :: "nat \<Rightarrow> cint"
  new_thread_id :: "nat \<Rightarrow> 64 word"
  worker :: "nat \<Rightarrow> worker_env"
  join_result :: "nat \<Rightarrow> cint"
  clock_program_end :: timespec

section \<open>The worker\<close>

text \<open>The calls a worker makes, in program order.\<close>

datatype action =
    Timespec_get_start
  | Curl_easy_init
  | Curl_easy_perform
  | Curl_easy_cleanup
  | Fprintf_stderr string
  | Timespec_get_end

text \<open>
  \<^verbatim>\<open>start_curl_run\<close>, lines 81-102: the record after the worker has run, and the calls
  it made. \<open>easy_init w = None\<close> is \<^verbatim>\<open>curl_easy_init\<close> returning a null handle.
\<close>

definition start_curl_run :: "worker_env \<Rightarrow> thread_info \<Rightarrow> thread_info \<times> action list" where
  "start_curl_run w arg =
     (let this_thread = arg\<lparr>start := clock_start w\<rparr>
      in case easy_init w of
           Some tr \<Rightarrow>
             (let this_thread = this_thread\<lparr>curl_error_string := []\<rparr>;
                  this_thread = this_thread\<lparr>curl_error_string := error_buffer tr\<rparr>;
                  this_thread = this_thread\<lparr>curl_error_code := ucast (curl_result tr)\<rparr>;
                  this_thread = this_thread\<lparr>curl_total := total_time_t tr\<rparr>;
                  this_thread = this_thread\<lparr>response_code := http_code tr\<rparr>;
                  this_thread = this_thread\<lparr>os_error_code := os_errno tr\<rparr>
              in (this_thread\<lparr>end' := clock_end w\<rparr>,
                  [Timespec_get_start, Curl_easy_init, Curl_easy_perform, Curl_easy_cleanup,
                   Timespec_get_end]))
         | None \<Rightarrow>
             (this_thread\<lparr>end' := clock_end w\<rparr>,
              [Timespec_get_start, Curl_easy_init,
               Fprintf_stderr (''unable to initialize curl object for thread_number: ''
                               @ printf_ld (sint (thread_num this_thread))),
               Timespec_get_end]))"

section \<open>The main thread\<close>

text \<open>
  What the process does that can be observed from outside, in the order of the main
  thread. The calls of worker \<open>i\<close> are recorded as \<open>In_thread i\<close> right after its
  creation; where they fall among the later events of the main thread is up to the
  scheduler.
\<close>

datatype event =
    Stdout string
  | Perror cint string
  | Calloc nat
  | Curl_global_init
  | Pthread_create nat cint
  | In_thread nat action
  | Nanosleep long
  | Pthread_join nat cint
  | Curl_global_cleanup
  | Free

datatype ending = Returned cint | Exited cint | Segfault

record state =
  threads :: "thread_info list"
  errors :: cint
  out :: "event list"

definition WAIT_TIME_NANO :: long where
  "WAIT_TIME_NANO = 150000"

definition EXIT_FAILURE :: cint where
  "EXIT_FAILURE = 1"

text \<open>\<^verbatim>\<open>handle_error_en(en, msg)\<close>, lines 50-51.\<close>

definition handle_error_en :: "cint \<Rightarrow> string \<Rightarrow> state \<Rightarrow> ending \<times> state" where
  "handle_error_en en msg st = (Exited EXIT_FAILURE, st\<lparr>out := out st @ [Perror en msg]\<rparr>)"

text \<open>\<^verbatim>\<open>usage\<close>, lines 104-110.\<close>

definition usage :: "string option \<Rightarrow> state \<Rightarrow> ending \<times> state" where
  "usage argv st =
     (Exited 1,
      st\<lparr>out := out st @
        [Stdout (''Usage: '' @ printf_s argv
                 @ '' -u URL -r number of runs ][-s produce less output]'' @ [NL]),
         Stdout (''Pipe through tee to create a logfile'' @ [NL]),
         Stdout ([TAB] @ printf_s argv @ '' -u http://localhost -r 30000 | tee full.log'' @ [NL]),
         Stdout ([TAB] @ printf_s argv
                 @ '' -u http://localhost -r 30000 -s | tee error.log'' @ [NL])]\<rparr>)"

text \<open>\<^verbatim>\<open>validate_configuration\<close>, lines 112-114.\<close>

definition validate_configuration :: "configuration \<Rightarrow> cint" where
  "validate_configuration config =
     (if program_name config = None \<or> configuration.url config = None
         \<or> number_of_runs config = 0
      then 0 else 1)"

text \<open>
  The first loop of \<^verbatim>\<open>main\<close>, lines 134-145. The counter \<open>i\<close> runs over
  \<open>0, 1, ...\<close> below the number of runs and is stored into the \<^verbatim>\<open>int\<close> field
  \<open>thread_num\<close>. A worker writes to its own element only, and the main thread reads
  an element only after joining its thread, so the element is given here the contents
  the worker leaves in it. \<open>main\<close> runs both loops on an array of \<open>n\<close> elements, so
  every index they use is in range.
\<close>

function create_loop ::
  "configuration \<Rightarrow> environment \<Rightarrow> nat \<Rightarrow> nat \<Rightarrow> state \<Rightarrow> (ending \<times> state) + state" where
  "create_loop config env n i st =
     (if i < n then
        (let slot = (threads st ! i)\<lparr>thread_num := of_nat i, url := configuration.url config\<rparr>;
             result = create_result env i;
             st = st\<lparr>threads := (threads st)[i := slot], out := out st @ [Pthread_create i result]\<rparr>
         in if result \<noteq> 0 then
              Inl (handle_error_en result
                     (''pthread_create: thread_num '' @ printf_ld (int i)) st)
            else
              (let ran = start_curl_run (worker env i) (slot\<lparr>thread_id := new_thread_id env i\<rparr>);
                   st = st\<lparr>threads := (threads st)[i := fst ran],
                           out := out st @ map (In_thread i) (snd ran) @ [Nanosleep WAIT_TIME_NANO]\<rparr>
               in create_loop config env n (Suc i) st))
      else Inr st)"
  by pat_completeness auto
termination
  by (relation "measure (\<lambda>(config, env, n, i, st). n - i)") auto

declare create_loop.simps [simp del]

text \<open>The line printed for one record, lines 160-165.\<close>

definition record_line :: "thread_info \<Rightarrow> timespec \<Rightarrow> string" where
  "record_line t elapsed_time =
     (let nl = (case strrchr (curl_error_string t) NL of Some k \<Rightarrow> [] | None \<Rightarrow> [NL])
      in ''Thread='' @ printf_ld (sint (thread_num t))
         @ '': response_code='' @ printf_ld (sint (response_code t))
         @ '': seconds='' @ printf_ld (sint (tv_sec elapsed_time))
         @ ''.'' @ printf_0ld 9 (sint (tv_nsec elapsed_time))
         @ '': curl_time_t='' @ printf_0ld 6 (sint (curl_total t))
         @ '': os_error_code='' @ printf_ld (sint (os_error_code t))
         @ '': curl_error_code='' @ printf_ld (sint (curl_error_code t))
         @ '': curl_error='' @ curl_error_string t @ nl)"

text \<open>The body of the second loop after a successful join, lines 156-166, on record \<open>i\<close>.\<close>

definition aggregate_record :: "configuration \<Rightarrow> nat \<Rightarrow> state \<Rightarrow> state" where
  "aggregate_record config i st =
     (let elapsed_time = timespec_diff_macro (end' (threads st ! i)) (start (threads st ! i));
          st = (if curl_error_code (threads st ! i) \<noteq> 0 then st\<lparr>errors := errors st + 1\<rparr> else st)
      in if silent config = 0 \<or> curl_error_code (threads st ! i) \<noteq> 0
         then st\<lparr>out := out st @ [Stdout (record_line (threads st ! i) elapsed_time)]\<rparr>
         else st)"

text \<open>The second loop of \<^verbatim>\<open>main\<close>, lines 149-167.\<close>

function join_loop ::
  "configuration \<Rightarrow> environment \<Rightarrow> nat \<Rightarrow> nat \<Rightarrow> state \<Rightarrow> (ending \<times> state) + state" where
  "join_loop config env n i st =
     (if i < n then
        (let result = join_result env i;
             st = st\<lparr>out := out st @ [Pthread_join i result]\<rparr>
         in if result \<noteq> 0 then
              Inl (handle_error_en result
                     (''pthread_join: thread_num '' @ printf_ld (int i)) st)
            else join_loop config env n (Suc i) (aggregate_record config i st))
      else Inr st)"
  by pat_completeness auto
termination
  by (relation "measure (\<lambda>(config, env, n, i, st). n - i)") auto

declare join_loop.simps [simp del]

text \<open>The last line of output, line 173.\<close>

definition summary_line :: "cint \<Rightarrow> long \<Rightarrow> timespec \<Rightarrow> string" where
  "summary_line errs runs elapsed_program_time =
     printf_ld (sint errs) @ '' errors out of '' @ printf_ld (sint runs)
     @ '' runs in '' @ printf_ld (sint (tv_sec elapsed_program_time))
     @ ''.'' @ printf_0ld 9 (sint (tv_nsec elapsed_program_time))
     @ '' real seconds'' @ [NL]"

text \<open>
  \<^verbatim>\<open>main\<close> from line 127 on, given the configuration that the option loop has filled
  in. The loops run for the values of \<open>i\<close> from 0 that are below
  \<open>number_of_runs\<close> as a signed number. When \<^verbatim>\<open>calloc\<close> returns a null pointer, the
  first store of the first loop faults.
\<close>

definition main :: "configuration \<Rightarrow> environment \<Rightarrow> ending \<times> state" where
  "main config env =
     (if validate_configuration config = 0
      then usage (program_name config) \<lparr>threads = [], errors = 0, out = []\<rparr>
      else
        (let config = config\<lparr>program_start := clock_program_start env\<rparr>;
             n = nat (sint (number_of_runs config));
             st = \<lparr>threads = (if calloc_ok env then replicate n calloc_thread_info else []),
                   errors = 0,
                   out = [Calloc (unat (number_of_runs config)), Curl_global_init]\<rparr>
         in if \<not> calloc_ok env \<and> 0 < n then (Segfault, st)
            else
              (case create_loop config env n 0 st of
                 Inl stopped \<Rightarrow> stopped
               | Inr st \<Rightarrow>
                   (case join_loop config env n 0 st of
                      Inl stopped \<Rightarrow> stopped
                    | Inr st \<Rightarrow>
                        (let config = config\<lparr>program_end := clock_program_end env\<rparr>;
                             elapsed_program_time =
                               timespec_diff_macro (program_end config) (program_start config)
                         in (Returned 0,
                             st\<lparr>out := out st @
                               [Curl_global_cleanup, Free,
                                Stdout (summary_line (errors st) (number_of_runs config)
                                          elapsed_program_time)]\<rparr>))))))"

section \<open>Observations\<close>

text \<open>The lines written to standard output, in order.\<close>

fun stdout_of :: "event list \<Rightarrow> string list" where
  "stdout_of [] = []"
| "stdout_of (Stdout s # es) = s # stdout_of es"
| "stdout_of (e # es) = stdout_of es"

text \<open>
  Element \<open>i\<close> of the array once the first loop has passed it: the main thread has
  stored the ordinal, the URL and the thread identifier, and the worker has run on it.
\<close>

definition dispatched :: "configuration \<Rightarrow> environment \<Rightarrow> nat \<Rightarrow> thread_info \<Rightarrow> thread_info" where
  "dispatched config env i t =
     fst (start_curl_run (worker env i)
            (t\<lparr>thread_num := of_nat i, url := configuration.url config,
               thread_id := new_thread_id env i\<rparr>))"

text \<open>
  The record that worker \<open>i\<close> produces, written out from the environment: the ordinal,
  the URL and the thread identifier stored by the main thread, the two clock readings
  of the worker, and what its transfer reported (or the zeros of \<^verbatim>\<open>calloc\<close> when the
  worker got no handle).
\<close>

definition worker_record :: "configuration \<Rightarrow> environment \<Rightarrow> nat \<Rightarrow> thread_info" where
  "worker_record config env i =
     (case easy_init (worker env i) of
        Some tr \<Rightarrow>
          \<lparr>thread_id = new_thread_id env i, thread_num = of_nat i,
           url = configuration.url config,
           start = clock_start (worker env i), end' = clock_end (worker env i),
           response_code = http_code tr, os_error_code = os_errno tr,
           curl_error_code = ucast (curl_result tr),
           curl_error_string = error_buffer tr, curl_total = total_time_t tr\<rparr>
      | None \<Rightarrow>
          \<lparr>thread_id = new_thread_id env i, thread_num = of_nat i,
           url = configuration.url config,
           start = clock_start (worker env i), end' = clock_end (worker env i),
           response_code = 0, os_error_code = 0, curl_error_code = 0,
           curl_error_string = [], curl_total = 0\<rparr>)"

section \<open>A sample run\<close>

text \<open>
  Two runs in silent mode. The first transfer fails to connect (\<^verbatim>\<open>CURLE_COULDNT_CONNECT\<close>
  is 7, \<^verbatim>\<open>ECONNREFUSED\<close> is 111), the second succeeds with status 200.
\<close>

definition demo_config :: configuration where
  "demo_config =
     \<lparr>program_name = Some ''how_fast_is_server'', url = Some ''http://localhost'',
      number_of_runs = 2, silent = 1,
      program_start = \<lparr>tv_sec = 0, tv_nsec = 0\<rparr>, program_end = \<lparr>tv_sec = 0, tv_nsec = 0\<rparr>\<rparr>"

definition demo_worker :: "nat \<Rightarrow> worker_env" where
  "demo_worker i =
     (if i = 0
      then \<lparr>clock_start = \<lparr>tv_sec = 5, tv_nsec = 900000000\<rparr>,
            easy_init = Some \<lparr>curl_result = 7, error_buffer = ''Failed to connect'',
                              total_time_t = 1234, http_code = 0, os_errno = 111\<rparr>,
            clock_end = \<lparr>tv_sec = 6, tv_nsec = 100000000\<rparr>\<rparr>
      else \<lparr>clock_start = \<lparr>tv_sec = 5, tv_nsec = 900200000\<rparr>,
            easy_init = Some \<lparr>curl_result = 0, error_buffer = [],
                              total_time_t = 45678, http_code = 200, os_errno = 0\<rparr>,
            clock_end = \<lparr>tv_sec = 5, tv_nsec = 950000000\<rparr>\<rparr>)"

definition demo_env :: environment where
  "demo_env =
     \<lparr>clock_program_start = \<lparr>tv_sec = 5, tv_nsec = 800000000\<rparr>,
      calloc_ok = True,
      create_result = (\<lambda>i. 0),
      new_thread_id = (\<lambda>i. of_nat i + 1),
      worker = demo_worker,
      join_result = (\<lambda>i. 0),
      clock_program_end = \<lparr>tv_sec = 6, tv_nsec = 100500000\<rparr>\<rparr>"

section \<open>The two loops\<close>

lemma strrchr_None_iff: "strrchr s c = None \<longleftrightarrow> c \<notin> set s"
  by (induction s) (auto split: option.splits)

lemma stdout_of_append: "stdout_of (xs @ ys) = stdout_of xs @ stdout_of ys"
  by (induction xs rule: stdout_of.induct) simp_all

lemma stdout_of_In_thread: "stdout_of (map (In_thread i) as) = []"
  by (induction as) simp_all

text \<open>
  When no \<^verbatim>\<open>pthread_create\<close> fails from \<open>i\<close> on, the first loop runs to its end: it
  leaves the length of the array and the error counter alone, turns each element from
  \<open>i\<close> up to \<open>n\<close> into its dispatched form, and prints nothing on standard output.
\<close>

lemma create_loop_ok:
  assumes "\<forall>j. i \<le> j \<and> j < n \<longrightarrow> create_result env j = 0"
    and "n \<le> length (threads st)"
  shows "\<exists>st'. create_loop config env n i st = Inr st'
           \<and> errors st' = errors st
           \<and> length (threads st') = length (threads st)
           \<and> (\<forall>j < length (threads st). threads st' ! j =
                 (if i \<le> j \<and> j < n then dispatched config env j (threads st ! j)
                  else threads st ! j))
           \<and> stdout_of (out st') = stdout_of (out st)"
  using assms
proof (induction "n - i" arbitrary: i st)
  case 0
  then show ?case by (auto simp add: create_loop.simps)
next
  case (Suc k)
  then have lt: "i < n" by simp
  let ?slot = "(threads st ! i)\<lparr>thread_num := of_nat i, url := configuration.url config\<rparr>"
  let ?ran = "start_curl_run (worker env i) (?slot\<lparr>thread_id := new_thread_id env i\<rparr>)"
  let ?st1 = "st\<lparr>threads := (threads st)[i := fst ?ran],
                  out := out st @ [Pthread_create i 0] @ map (In_thread i) (snd ?ran)
                         @ [Nanosleep WAIT_TIME_NANO]\<rparr>"
  have ok: "create_result env i = 0" using Suc.prems lt by simp
  have step: "create_loop config env n i st = create_loop config env n (Suc i) ?st1"
    using lt ok by (subst create_loop.simps) (simp add: Let_def)
  have "k = n - Suc i" using Suc.hyps(2) by simp
  moreover have "\<forall>j. Suc i \<le> j \<and> j < n \<longrightarrow> create_result env j = 0"
    using Suc.prems(1) by simp
  moreover have "n \<le> length (threads ?st1)" using Suc.prems(2) by simp
  ultimately obtain st' where st':
    "create_loop config env n (Suc i) ?st1 = Inr st'"
    "errors st' = errors ?st1"
    "length (threads st') = length (threads ?st1)"
    "\<forall>j < length (threads ?st1). threads st' ! j =
        (if Suc i \<le> j \<and> j < n then dispatched config env j (threads ?st1 ! j)
         else threads ?st1 ! j)"
    "stdout_of (out st') = stdout_of (out ?st1)"
    using Suc.hyps(1) [of "Suc i" ?st1] by blast
  have eqi: "fst ?ran = dispatched config env i (threads st ! i)"
    by (simp add: dispatched_def)
  have nth: "\<forall>j < length (threads st). threads st' ! j =
                 (if i \<le> j \<and> j < n then dispatched config env j (threads st ! j)
                  else threads st ! j)"
  proof (intro allI impI)
    fix j assume j: "j < length (threads st)"
    show "threads st' ! j =
                 (if i \<le> j \<and> j < n then dispatched config env j (threads st ! j)
                  else threads st ! j)"
    proof (cases "j = i")
      case True
      then show ?thesis using st'(4) j lt eqi by simp
    next
      case False
      then show ?thesis using st'(4) j by auto
    qed
  qed
  have "stdout_of (out st') = stdout_of (out st)"
    using st'(5) by (simp add: stdout_of_append stdout_of_In_thread)
  then show ?case using step st'(1,2,3) nth by simp
qed

text \<open>The first failing \<^verbatim>\<open>pthread_create\<close> ends the process.\<close>

lemma create_loop_fails:
  assumes "i \<le> k" and "k < n"
    and "\<forall>j. i \<le> j \<and> j < k \<longrightarrow> create_result env j = 0"
    and "create_result env k \<noteq> 0"
  shows "\<exists>st' pre. create_loop config env n i st = Inl (Exited EXIT_FAILURE, st')
           \<and> out st' = pre @ [Pthread_create k (create_result env k),
                               Perror (create_result env k)
                                 (''pthread_create: thread_num '' @ printf_ld (int k))]
           \<and> stdout_of (out st') = stdout_of (out st)"
  using assms
proof (induction "k - i" arbitrary: i st)
  case 0
  then have "i = k" by simp
  then show ?case
    using "0.prems"
    by (subst create_loop.simps) (simp add: Let_def handle_error_en_def stdout_of_append)
next
  case (Suc d)
  then have lt: "i < k" "i < n" by simp_all
  let ?slot = "(threads st ! i)\<lparr>thread_num := of_nat i, url := configuration.url config\<rparr>"
  let ?ran = "start_curl_run (worker env i) (?slot\<lparr>thread_id := new_thread_id env i\<rparr>)"
  let ?st1 = "st\<lparr>threads := (threads st)[i := fst ?ran],
                  out := out st @ [Pthread_create i 0] @ map (In_thread i) (snd ?ran)
                         @ [Nanosleep WAIT_TIME_NANO]\<rparr>"
  have ok: "create_result env i = 0" using Suc.prems lt by simp
  have step: "create_loop config env n i st = create_loop config env n (Suc i) ?st1"
    using lt ok by (subst create_loop.simps) (simp add: Let_def)
  have "d = k - Suc i" using Suc.hyps(2) by simp
  moreover have "Suc i \<le> k" using lt by simp
  moreover have "\<forall>j. Suc i \<le> j \<and> j < k \<longrightarrow> create_result env j = 0"
    using Suc.prems(3) by simp
  ultimately obtain st' pre where st':
    "create_loop config env n (Suc i) ?st1 = Inl (Exited EXIT_FAILURE, st')"
    "out st' = pre @ [Pthread_create k (create_result env k),
                      Perror (create_result env k)
                        (''pthread_create: thread_num '' @ printf_ld (int k))]"
    "stdout_of (out st') = stdout_of (out ?st1)"
    using Suc.hyps(1) [of "Suc i" ?st1] Suc.prems(2,4) by blast
  have "stdout_of (out st') = stdout_of (out st)"
    using st'(3) by (simp add: stdout_of_append stdout_of_In_thread)
  then show ?case using step st'(1,2) by auto
qed

text \<open>
  When no \<^verbatim>\<open>pthread_join\<close> fails from \<open>i\<close> on, the second loop runs to its end: it
  leaves the array alone, adds to the counter the number of records from \<open>i\<close> up to
  \<open>n\<close> with a non-zero \<open>curl_error_code\<close>, and prints the lines of the records that
  are errors or that silent mode does not suppress, in the order of the array.
\<close>

lemma join_loop_ok:
  assumes "\<forall>j. i \<le> j \<and> j < n \<longrightarrow> join_result env j = 0"
  shows "\<exists>st'. join_loop config env n i st = Inr st'
           \<and> threads st' = threads st
           \<and> errors st' = errors st
                 + of_nat (length (filter (\<lambda>j. curl_error_code (threads st ! j) \<noteq> 0) [i..<n]))
           \<and> stdout_of (out st') = stdout_of (out st)
                 @ map (\<lambda>j. record_line (threads st ! j)
                              (timespec_diff_macro (end' (threads st ! j)) (start (threads st ! j))))
                     (filter (\<lambda>j. silent config = 0 \<or> curl_error_code (threads st ! j) \<noteq> 0)
                        [i..<n])"
  using assms
proof (induction "n - i" arbitrary: i st)
  case 0
  then show ?case by (auto simp add: join_loop.simps)
next
  case (Suc d)
  then have lt: "i < n" by simp
  let ?st0 = "st\<lparr>out := out st @ [Pthread_join i 0]\<rparr>"
  let ?st1 = "aggregate_record config i ?st0"
  have ok: "join_result env i = 0" using Suc.prems lt by simp
  have step: "join_loop config env n i st = join_loop config env n (Suc i) ?st1"
    using lt ok by (subst join_loop.simps) (simp add: Let_def)
  have thr: "threads ?st1 = threads st"
    by (simp add: aggregate_record_def Let_def)
  have err: "errors ?st1 = errors st + (if curl_error_code (threads st ! i) \<noteq> 0 then 1 else 0)"
    by (simp add: aggregate_record_def Let_def)
  have outp: "stdout_of (out ?st1) = stdout_of (out st)
      @ (if silent config = 0 \<or> curl_error_code (threads st ! i) \<noteq> 0
         then [record_line (threads st ! i)
                 (timespec_diff_macro (end' (threads st ! i)) (start (threads st ! i)))]
         else [])"
    by (simp add: aggregate_record_def Let_def stdout_of_append)
  have "d = n - Suc i" using Suc.hyps(2) by simp
  moreover have "\<forall>j. Suc i \<le> j \<and> j < n \<longrightarrow> join_result env j = 0"
    using Suc.prems(1) by simp
  ultimately obtain st' where st':
    "join_loop config env n (Suc i) ?st1 = Inr st'"
    "threads st' = threads ?st1"
    "errors st' = errors ?st1
        + of_nat (length (filter (\<lambda>j. curl_error_code (threads ?st1 ! j) \<noteq> 0) [Suc i..<n]))"
    "stdout_of (out st') = stdout_of (out ?st1)
        @ map (\<lambda>j. record_line (threads ?st1 ! j)
                     (timespec_diff_macro (end' (threads ?st1 ! j)) (start (threads ?st1 ! j))))
            (filter (\<lambda>j. silent config = 0 \<or> curl_error_code (threads ?st1 ! j) \<noteq> 0)
               [Suc i..<n])"
    using Suc.hyps(1) [of "Suc i" ?st1] by blast
  have upt: "[i..<n] = i # [Suc i..<n]" using lt by (simp add: upt_conv_Cons)
  show ?case
    unfolding step upt
    using st'(1) st'(2) st'(3) st'(4)
    unfolding thr err outp
    by simp
qed

text \<open>The first failing \<^verbatim>\<open>pthread_join\<close> ends the process.\<close>

lemma join_loop_fails:
  assumes "i \<le> k" and "k < n"
    and "\<forall>j. i \<le> j \<and> j < k \<longrightarrow> join_result env j = 0"
    and "join_result env k \<noteq> 0"
  shows "\<exists>st' pre. join_loop config env n i st = Inl (Exited EXIT_FAILURE, st')
           \<and> out st' = pre @ [Pthread_join k (join_result env k),
                               Perror (join_result env k)
                                 (''pthread_join: thread_num '' @ printf_ld (int k))]"
  using assms
proof (induction "k - i" arbitrary: i st)
  case 0
  then have "i = k" by simp
  then show ?case
    using "0.prems"
    by (subst join_loop.simps) (simp add: Let_def handle_error_en_def)
next
  case (Suc d)
  then have lt: "i < k" "i < n" by simp_all
  let ?st1 = "aggregate_record config i (st\<lparr>out := out st @ [Pthread_join i 0]\<rparr>)"
  have ok: "join_result env i = 0" using Suc.prems lt by simp
  have step: "join_loop config env n i st = join_loop config env n (Suc i) ?st1"
    using lt ok by (subst join_loop.simps) (simp add: Let_def)
  have "d = k - Suc i" using Suc.hyps(2) by simp
  moreover have "Suc i \<le> k" using lt by simp
  moreover have "\<forall>j. Suc i \<le> j \<and> j < k \<longrightarrow> join_result env j = 0"
    using Suc.prems(3) by simp
  ultimately show ?case
    using Suc.hyps(1) [of "Suc i" ?st1] Suc.prems(2,4) step by simp
qed

lemma filter_indices:
  "map (\<lambda>j. g (xs ! j)) (filter (\<lambda>j. P (xs ! j)) [0..<length xs]) = map g (filter P xs)"
proof -
  have "map g (filter P (map ((!) xs) [0..<length xs]))
        = map (\<lambda>j. g (xs ! j)) (filter (\<lambda>j. P (xs ! j)) [0..<length xs])"
    by (simp add: filter_map comp_def)
  then show ?thesis by (simp add: map_nth)
qed

lemma count_indices:
  "length (filter (\<lambda>j. P (xs ! j)) [0..<length xs]) = length (filter P xs)"
  using filter_indices [of "\<lambda>x. x" xs P, THEN arg_cong, of length] by simp

section \<open>Complete runs\<close>

text \<open>
  With a valid configuration, a successful allocation and no failing
  \<^verbatim>\<open>pthread_create\<close> or \<^verbatim>\<open>pthread_join\<close>, \<open>main\<close> returns 0. The array then holds
  one dispatched record per run, the counter is the number of records with a non-zero
  \<open>curl_error_code\<close> (as an \<^verbatim>\<open>int\<close>), and standard output holds the lines of the
  records in the order of the array, followed by the summary.
\<close>

lemma main_completes:
  assumes valid: "validate_configuration config \<noteq> 0"
    and calloc: "calloc_ok env"
    and creates: "\<forall>j < nat (sint (number_of_runs config)). create_result env j = 0"
    and joins: "\<forall>j < nat (sint (number_of_runs config)). join_result env j = 0"
  shows "\<exists>st. main config env = (Returned 0, st)
           \<and> threads st = map (\<lambda>j. dispatched config env j calloc_thread_info)
                             [0..<nat (sint (number_of_runs config))]
           \<and> errors st = of_nat (length (filter (\<lambda>t. curl_error_code t \<noteq> 0) (threads st)))
           \<and> stdout_of (out st) =
               map (\<lambda>t. record_line t (timespec_diff_macro (end' t) (start t)))
                 (filter (\<lambda>t. silent config = 0 \<or> curl_error_code t \<noteq> 0) (threads st))
               @ [summary_line (errors st) (number_of_runs config)
                    (timespec_diff_macro (clock_program_end env) (clock_program_start env))]"
proof -
  define n where "n = nat (sint (number_of_runs config))"
  define config1 where "config1 = config\<lparr>program_start := clock_program_start env\<rparr>"
  define st0 where "st0 = \<lparr>threads = replicate n calloc_thread_info, errors = 0,
                            out = [Calloc (unat (number_of_runs config)), Curl_global_init]\<rparr>"
  have len0: "length (threads st0) = n" by (simp add: st0_def)
  have "\<forall>j. 0 \<le> j \<and> j < n \<longrightarrow> create_result env j = 0"
    using creates by (simp add: n_def)
  moreover have "n \<le> length (threads st0)" by (simp add: len0)
  ultimately obtain st1 where st1:
    "create_loop config1 env n 0 st0 = Inr st1"
    "errors st1 = errors st0"
    "length (threads st1) = length (threads st0)"
    "\<forall>j < length (threads st0). threads st1 ! j =
        (if 0 \<le> j \<and> j < n then dispatched config1 env j (threads st0 ! j)
         else threads st0 ! j)"
    "stdout_of (out st1) = stdout_of (out st0)"
    using create_loop_ok [of 0 n env st0 config1] by blast
  have disp: "dispatched config1 env j t = dispatched config env j t" for j t
    by (simp add: dispatched_def config1_def)
  have len1: "length (threads st1) = n" using st1(3) len0 by simp
  have thr1: "threads st1 = map (\<lambda>j. dispatched config env j calloc_thread_info) [0..<n]"
  proof (rule nth_equalityI)
    show "length (threads st1) = length (map (\<lambda>j. dispatched config env j calloc_thread_info) [0..<n])"
      using len1 by simp
  next
    fix j assume "j < length (threads st1)"
    then have j: "j < n" using len1 by simp
    then have "threads st1 ! j = dispatched config1 env j (threads st0 ! j)"
      using st1(4) len0 by simp
    then show "threads st1 ! j = map (\<lambda>j. dispatched config env j calloc_thread_info) [0..<n] ! j"
      using j by (simp add: disp st0_def)
  qed
  have "\<forall>j. 0 \<le> j \<and> j < n \<longrightarrow> join_result env j = 0"
    using joins by (simp add: n_def)
  then obtain st2 where st2:
    "join_loop config1 env n 0 st1 = Inr st2"
    "threads st2 = threads st1"
    "errors st2 = errors st1
        + of_nat (length (filter (\<lambda>j. curl_error_code (threads st1 ! j) \<noteq> 0) [0..<n]))"
    "stdout_of (out st2) = stdout_of (out st1)
        @ map (\<lambda>j. record_line (threads st1 ! j)
                     (timespec_diff_macro (end' (threads st1 ! j)) (start (threads st1 ! j))))
            (filter (\<lambda>j. silent config1 = 0 \<or> curl_error_code (threads st1 ! j) \<noteq> 0)
               [0..<n])"
    using join_loop_ok [of 0 n env config1 st1] by blast
  have err2: "errors st2 = of_nat (length (filter (\<lambda>t. curl_error_code t \<noteq> 0) (threads st2)))"
    using st2(3) st1(2) count_indices [of "\<lambda>t. curl_error_code t \<noteq> 0" "threads st1"]
    by (simp add: len1 st2(2) st0_def)
  have out2: "stdout_of (out st2) =
               map (\<lambda>t. record_line t (timespec_diff_macro (end' t) (start t)))
                 (filter (\<lambda>t. silent config = 0 \<or> curl_error_code t \<noteq> 0) (threads st2))"
    using st2(4) st1(5)
      filter_indices [of "\<lambda>t. record_line t (timespec_diff_macro (end' t) (start t))"
                         "threads st1" "\<lambda>t. silent config = 0 \<or> curl_error_code t \<noteq> 0"]
    by (simp add: len1 st2(2) st0_def config1_def)
  let ?st3 = "st2\<lparr>out := out st2 @
                 [Curl_global_cleanup, Free,
                  Stdout (summary_line (errors st2) (number_of_runs config)
                            (timespec_diff_macro (clock_program_end env) (clock_program_start env)))]\<rparr>"
  have run: "main config env = (Returned 0, ?st3)"
  proof -
    have c: "create_loop (config\<lparr>program_start := clock_program_start env\<rparr>) env
               (nat (sint (number_of_runs config))) 0
               \<lparr>threads = replicate (nat (sint (number_of_runs config))) calloc_thread_info,
                errors = 0,
                out = [Calloc (unat (number_of_runs config)), Curl_global_init]\<rparr> = Inr st1"
      using st1(1) by (simp add: config1_def n_def st0_def)
    have j: "join_loop (config\<lparr>program_start := clock_program_start env\<rparr>) env
               (nat (sint (number_of_runs config))) 0 st1 = Inr st2"
      using st2(1) by (simp add: config1_def n_def)
    show ?thesis
      using valid calloc by (simp add: main_def Let_def c j)
  qed
  show ?thesis
    unfolding run
    using thr1 err2 out2
    by (simp add: st2(2) stdout_of_append n_def)
qed

section \<open>Aborted runs\<close>

lemma main_create_fails:
  assumes valid: "validate_configuration config \<noteq> 0"
    and calloc: "calloc_ok env"
    and k: "k < nat (sint (number_of_runs config))"
    and before: "\<forall>j < k. create_result env j = 0"
    and fails: "create_result env k \<noteq> 0"
  shows "\<exists>st pre. main config env = (Exited EXIT_FAILURE, st)
           \<and> out st = pre @ [Pthread_create k (create_result env k),
                              Perror (create_result env k)
                                (''pthread_create: thread_num '' @ printf_ld (int k))]
           \<and> stdout_of (out st) = []"
proof -
  let ?config1 = "config\<lparr>program_start := clock_program_start env\<rparr>"
  let ?n = "nat (sint (number_of_runs config))"
  let ?st0 = "\<lparr>threads = replicate ?n calloc_thread_info, errors = 0,
               out = [Calloc (unat (number_of_runs config)), Curl_global_init]\<rparr>"
  have "\<forall>j. 0 \<le> j \<and> j < k \<longrightarrow> create_result env j = 0" using before by simp
  then obtain st pre where st:
    "create_loop ?config1 env ?n 0 ?st0 = Inl (Exited EXIT_FAILURE, st)"
    "out st = pre @ [Pthread_create k (create_result env k),
                     Perror (create_result env k)
                       (''pthread_create: thread_num '' @ printf_ld (int k))]"
    "stdout_of (out st) = stdout_of (out ?st0)"
    using create_loop_fails [of 0 k ?n env ?config1 ?st0] k fails by blast
  have "main config env = (Exited EXIT_FAILURE, st)"
    using valid calloc k by (simp add: main_def Let_def st(1))
  then show ?thesis using st(2,3) by simp
qed

lemma main_join_fails:
  assumes valid: "validate_configuration config \<noteq> 0"
    and calloc: "calloc_ok env"
    and creates: "\<forall>j < nat (sint (number_of_runs config)). create_result env j = 0"
    and k: "k < nat (sint (number_of_runs config))"
    and before: "\<forall>j < k. join_result env j = 0"
    and fails: "join_result env k \<noteq> 0"
  shows "\<exists>st pre. main config env = (Exited EXIT_FAILURE, st)
           \<and> out st = pre @ [Pthread_join k (join_result env k),
                              Perror (join_result env k)
                                (''pthread_join: thread_num '' @ printf_ld (int k))]"
proof -
  let ?config1 = "config\<lparr>program_start := clock_program_start env\<rparr>"
  let ?n = "nat (sint (number_of_runs config))"
  let ?st0 = "\<lparr>threads = replicate ?n calloc_thread_info, errors = 0,
               out = [Calloc (unat (number_of_runs config)), Curl_global_init]\<rparr>"
  have "\<forall>j. 0 \<le> j \<and> j < ?n \<longrightarrow> create_result env j = 0" using creates by simp
  moreover have "?n \<le> length (threads ?st0)" by simp
  ultimately obtain st1 where st1: "create_loop ?config1 env ?n 0 ?st0 = Inr st1"
    using create_loop_ok [of 0 ?n env ?st0 ?config1] by blast
  have "\<forall>j. 0 \<le> j \<and> j < k \<longrightarrow> join_result env j = 0" using before by simp
  then obtain st pre where st:
    "join_loop ?config1 env ?n 0 st1 = Inl (Exited EXIT_FAILURE, st)"
    "out st = pre @ [Pthread_join k (join_result env k),
                     Perror (join_result env k)
                       (''pthread_join: thread_num '' @ printf_ld (int k))]"
    using join_loop_fails [of 0 k ?n env ?config1 st1] k fails by blast
  have "main config env = (Exited EXIT_FAILURE, st)"
    using valid calloc k by (simp add: main_def Let_def st1 st(1))
  then show ?thesis using st(2) by simp
qed

section \<open>Fields of a dispatched record\<close>

lemma sint_of_nat_int:
  assumes "i < 2 ^ 31"
  shows "sint (of_nat i :: cint) = int i"
proof -
  have "int i < 2 ^ 31" using assms by (metis of_nat_less_iff of_nat_numeral of_nat_power)
  then show ?thesis
    by (simp add: signed_of_nat signed_take_bit_int_eq_self)
qed

lemma ucast_up_eq_0: "(ucast (x :: cint) :: long) = 0 \<longleftrightarrow> x = 0"
proof
  assume "(ucast x :: long) = 0"
  then have "uint (ucast x :: long) = 0" by simp
  moreover have "uint (ucast x :: long) = uint x"
    by (rule uint_up_ucast) (simp add: is_up)
  ultimately show "x = 0" by (simp add: uint_0_iff)
next
  assume "x = 0"
  then show "(ucast x :: long) = 0" by simp
qed

text \<open>
  A record whose worker got a handle is an error exactly when the transfer returned a
  non-zero \<^verbatim>\<open>CURLcode\<close>.
\<close>

lemma dispatched_error_code:
  assumes "easy_init (worker env i) = Some tr"
  shows "curl_error_code (dispatched config env i t) \<noteq> 0 \<longleftrightarrow> curl_result tr \<noteq> 0"
  using assms by (simp add: dispatched_def start_curl_run_def Let_def ucast_up_eq_0)

lemma dispatched_thread_num: "thread_num (dispatched config env i t) = of_nat i"
  by (simp add: dispatched_def start_curl_run_def Let_def split: option.splits)

lemma dispatched_times:
  "start (dispatched config env i t) = clock_start (worker env i)"
  "end' (dispatched config env i t) = clock_end (worker env i)"
  by (simp_all add: dispatched_def start_curl_run_def Let_def split: option.splits)

section \<open>Elapsed time\<close>

lemma sint_sub_small:
  fixes a b :: long
  assumes "- (2 ^ 63) \<le> sint a - sint b" and "sint a - sint b < 2 ^ 63"
  shows "sint (a - b) = sint a - sint b"
  using assms by (simp add: sint_word_ariths signed_take_bit_int_eq_self)

lemma sint_add_small:
  fixes a b :: long
  assumes "- (2 ^ 63) \<le> sint a + sint b" and "sint a + sint b < 2 ^ 63"
  shows "sint (a + b) = sint a + sint b"
  using assms by (simp add: sint_word_ariths signed_take_bit_int_eq_self)

lemma sint_billion: "sint (1000000000 :: long) = 1000000000"
  by simp

lemma sint_one_long: "sint (1 :: long) = 1"
  by simp

text \<open>
  Claim C1. For a start and an end timestamp whose nanosecond fields lie in
  \<open>[0, 999999999]\<close>, with the end not earlier than the start (and the difference of the
  seconds representable in the 64-bit \<^verbatim>\<open>time_t\<close>, as C requires of a signed
  subtraction), \<open>timespec_diff_macro\<close> yields a non-negative result with a normalized
  nanosecond field: when the direct nanosecond difference is negative, one second is
  borrowed and 1000000000 nanoseconds are added; otherwise both fields are the direct
  differences.
\<close>

theorem C1_timespec_diff_normalized:
  assumes ns: "0 \<le> sint (tv_nsec s)" "sint (tv_nsec s) \<le> 999999999"
    and ne: "0 \<le> sint (tv_nsec e)" "sint (tv_nsec e) \<le> 999999999"
    and order: "sint (tv_sec s) < sint (tv_sec e)
                \<or> (sint (tv_sec s) = sint (tv_sec e) \<and> sint (tv_nsec s) \<le> sint (tv_nsec e))"
    and repr: "sint (tv_sec e) - sint (tv_sec s) < 2 ^ 63"
  shows "0 \<le> sint (tv_sec (timespec_diff_macro e s))
       \<and> 0 \<le> sint (tv_nsec (timespec_diff_macro e s))
       \<and> sint (tv_nsec (timespec_diff_macro e s)) \<le> 999999999
       \<and> (if sint (tv_nsec e) - sint (tv_nsec s) < 0
          then sint (tv_sec (timespec_diff_macro e s)) = sint (tv_sec e) - sint (tv_sec s) - 1
             \<and> sint (tv_nsec (timespec_diff_macro e s))
                 = sint (tv_nsec e) - sint (tv_nsec s) + 1000000000
          else sint (tv_sec (timespec_diff_macro e s)) = sint (tv_sec e) - sint (tv_sec s)
             \<and> sint (tv_nsec (timespec_diff_macro e s)) = sint (tv_nsec e) - sint (tv_nsec s))"
proof -
  have dn: "sint (tv_nsec e - tv_nsec s) = sint (tv_nsec e) - sint (tv_nsec s)"
    using ns ne by (intro sint_sub_small) simp_all
  have sec_ge: "0 \<le> sint (tv_sec e) - sint (tv_sec s)"
    using order by auto
  have ds: "sint (tv_sec e - tv_sec s) = sint (tv_sec e) - sint (tv_sec s)"
    using sec_ge repr by (intro sint_sub_small) simp_all
  show ?thesis
  proof (cases "sint (tv_nsec e) - sint (tv_nsec s) < 0")
    case True
    then have sec_pos: "1 \<le> sint (tv_sec e) - sint (tv_sec s)"
      using order by auto
    have borrow_s: "sint (tv_sec e - tv_sec s - 1) = sint (tv_sec e) - sint (tv_sec s) - 1"
      using sec_pos repr ds sint_sub_small [of "tv_sec e - tv_sec s" 1]
      by (simp add: sint_one_long)
    have borrow_n: "sint (tv_nsec e - tv_nsec s + 1000000000)
                    = sint (tv_nsec e) - sint (tv_nsec s) + 1000000000"
      using ns ne dn sint_add_small [of "tv_nsec e - tv_nsec s" 1000000000]
      by (simp add: sint_billion)
    from True dn have neg: "tv_nsec e - tv_nsec s <s 0"
      by (simp add: word_sless_alt)
    show ?thesis
      using True neg borrow_s borrow_n sec_pos ns ne
      by (simp add: timespec_diff_macro_def Let_def)
  next
    case False
    with dn have nneg: "\<not> tv_nsec e - tv_nsec s <s 0"
      by (simp add: word_sless_alt)
    show ?thesis
      using False nneg ds dn sec_ge ns ne
      by (simp add: timespec_diff_macro_def Let_def)
  qed
qed

text \<open>
  The example of the specification: start = (5 s, 900000000 ns) and
  end = (6 s, 100000000 ns) give elapsed = (0 s, 200000000 ns).
\<close>

theorem C1_timespec_diff_witness:
  "sint (tv_sec (timespec_diff_macro \<lparr>tv_sec = 6, tv_nsec = 100000000\<rparr>
                                      \<lparr>tv_sec = 5, tv_nsec = 900000000\<rparr>)) = 0
   \<and> sint (tv_nsec (timespec_diff_macro \<lparr>tv_sec = 6, tv_nsec = 100000000\<rparr>
                                        \<lparr>tv_sec = 5, tv_nsec = 900000000\<rparr>)) = 200000000"
  using C1_timespec_diff_normalized
    [of "\<lparr>tv_sec = 5, tv_nsec = 900000000\<rparr>" "\<lparr>tv_sec = 6, tv_nsec = 100000000\<rparr>"]
  by simp

section \<open>Facts about the sample run\<close>

lemma demo_valid: "validate_configuration demo_config \<noteq> 0"
  by (simp add: validate_configuration_def demo_config_def)

lemma demo_runs: "nat (sint (number_of_runs demo_config)) = 2"
  by (simp add: demo_config_def)

lemma demo_creates: "\<forall>j < nat (sint (number_of_runs demo_config)). create_result demo_env j = 0"
  by (simp add: demo_env_def)

lemma demo_joins: "\<forall>j < nat (sint (number_of_runs demo_config)). join_result demo_env j = 0"
  by (simp add: demo_env_def)

lemma demo_calloc: "calloc_ok demo_env"
  by (simp add: demo_env_def)

section \<open>Which lines are printed\<close>

text \<open>
  Claim C3. For every record, the aggregator prints its line if and only if the run is
  not in silent mode or the record's \<open>curl_error_code\<close> is non-zero: the body of the
  loop appends exactly that line in the one case and nothing in the other, and a loop
  whose joins succeed prints the lines of exactly those records, in the order of the
  array. In particular silent mode never suppresses the line of an error record.
\<close>

theorem C3_line_iff_verbose_or_error:
  "(silent config = 0 \<or> curl_error_code (threads st ! i) \<noteq> 0 \<longrightarrow>
       out (aggregate_record config i st)
         = out st @ [Stdout (record_line (threads st ! i)
                       (timespec_diff_macro (end' (threads st ! i)) (start (threads st ! i))))])
   \<and> (\<not> (silent config = 0 \<or> curl_error_code (threads st ! i) \<noteq> 0) \<longrightarrow>
       out (aggregate_record config i st) = out st)
   \<and> ((\<forall>j < length (threads st). join_result env j = 0) \<longrightarrow>
       (\<exists>st'. join_loop config env (length (threads st)) 0 st = Inr st'
          \<and> stdout_of (out st') = stdout_of (out st)
               @ map (\<lambda>t. record_line t (timespec_diff_macro (end' t) (start t)))
                   (filter (\<lambda>t. silent config = 0 \<or> curl_error_code t \<noteq> 0) (threads st))))"
proof (intro conjI impI)
  assume "silent config = 0 \<or> curl_error_code (threads st ! i) \<noteq> 0"
  then show "out (aggregate_record config i st)
         = out st @ [Stdout (record_line (threads st ! i)
                       (timespec_diff_macro (end' (threads st ! i)) (start (threads st ! i))))]"
    by (auto simp add: aggregate_record_def Let_def)
next
  assume "\<not> (silent config = 0 \<or> curl_error_code (threads st ! i) \<noteq> 0)"
  then show "out (aggregate_record config i st) = out st"
    by (simp add: aggregate_record_def Let_def)
next
  assume "\<forall>j < length (threads st). join_result env j = 0"
  then have "\<forall>j. 0 \<le> j \<and> j < length (threads st) \<longrightarrow> join_result env j = 0"
    by simp
  then obtain st' where st':
    "join_loop config env (length (threads st)) 0 st = Inr st'"
    "stdout_of (out st') = stdout_of (out st)
        @ map (\<lambda>j. record_line (threads st ! j)
                     (timespec_diff_macro (end' (threads st ! j)) (start (threads st ! j))))
            (filter (\<lambda>j. silent config = 0 \<or> curl_error_code (threads st ! j) \<noteq> 0)
               [0..<length (threads st)])"
    using join_loop_ok [of 0 "length (threads st)" env config st] by blast
  show "\<exists>st'. join_loop config env (length (threads st)) 0 st = Inr st'
          \<and> stdout_of (out st') = stdout_of (out st)
               @ map (\<lambda>t. record_line t (timespec_diff_macro (end' t) (start t)))
                   (filter (\<lambda>t. silent config = 0 \<or> curl_error_code t \<noteq> 0) (threads st))"
    using st'
      filter_indices [of "\<lambda>t. record_line t (timespec_diff_macro (end' t) (start t))"
                         "threads st" "\<lambda>t. silent config = 0 \<or> curl_error_code t \<noteq> 0"]
    by simp
qed

text \<open>
  In the silent sample configuration, a record with error code 7 is printed and a
  record with error code 0 is not.
\<close>

theorem C3_line_iff_verbose_or_error_witness:
  "out (aggregate_record demo_config 0
          \<lparr>threads = [calloc_thread_info\<lparr>curl_error_code := 7\<rparr>], errors = 0, out = []\<rparr>)
     = [Stdout (record_line (calloc_thread_info\<lparr>curl_error_code := 7\<rparr>)
                  (timespec_diff_macro (end' calloc_thread_info) (start calloc_thread_info)))]
   \<and> out (aggregate_record demo_config 0
            \<lparr>threads = [calloc_thread_info], errors = 0, out = []\<rparr>) = []
   \<and> (\<exists>st'. join_loop demo_config demo_env 1 0
                \<lparr>threads = [calloc_thread_info\<lparr>curl_error_code := 7\<rparr>], errors = 0, out = []\<rparr>
              = Inr st'
            \<and> stdout_of (out st')
              = [record_line (calloc_thread_info\<lparr>curl_error_code := 7\<rparr>)
                  (timespec_diff_macro (end' calloc_thread_info) (start calloc_thread_info))])"
proof -
  let ?bad = "\<lparr>threads = [calloc_thread_info\<lparr>curl_error_code := 7\<rparr>], errors = 0, out = []\<rparr>"
  let ?good = "\<lparr>threads = [calloc_thread_info], errors = 0, out = []\<rparr>"
  have a: "out (aggregate_record demo_config 0 ?bad)
     = [Stdout (record_line (calloc_thread_info\<lparr>curl_error_code := 7\<rparr>)
                  (timespec_diff_macro (end' calloc_thread_info) (start calloc_thread_info)))]"
    using C3_line_iff_verbose_or_error [of demo_config ?bad 0 demo_env]
    by (simp add: calloc_thread_info_def)
  have b: "out (aggregate_record demo_config 0 ?good) = []"
    using C3_line_iff_verbose_or_error [of demo_config ?good 0 demo_env]
    by (simp add: calloc_thread_info_def demo_config_def)
  have c: "\<exists>st'. join_loop demo_config demo_env 1 0 ?bad = Inr st'
            \<and> stdout_of (out st')
              = [record_line (calloc_thread_info\<lparr>curl_error_code := 7\<rparr>)
                  (timespec_diff_macro (end' calloc_thread_info) (start calloc_thread_info))]"
    using C3_line_iff_verbose_or_error [of demo_config ?bad 0 demo_env]
    by (simp add: calloc_thread_info_def demo_env_def)
  from a b c show ?thesis by blast
qed

lemma main_completesE:
  assumes "validate_configuration config \<noteq> 0"
    and "calloc_ok env"
    and "\<forall>j < nat (sint (number_of_runs config)). create_result env j = 0"
    and "\<forall>j < nat (sint (number_of_runs config)). join_result env j = 0"
  obtains st where "main config env = (Returned 0, st)"
    and "threads st = map (\<lambda>j. dispatched config env j calloc_thread_info)
                        [0..<nat (sint (number_of_runs config))]"
    and "errors st = of_nat (length (filter (\<lambda>t. curl_error_code t \<noteq> 0) (threads st)))"
    and "stdout_of (out st) =
           map (\<lambda>t. record_line t (timespec_diff_macro (end' t) (start t)))
             (filter (\<lambda>t. silent config = 0 \<or> curl_error_code t \<noteq> 0) (threads st))
           @ [summary_line (errors st) (number_of_runs config)
                (timespec_diff_macro (clock_program_end env) (clock_program_start env))]"
proof -
  from main_completes [OF assms]
  obtain st where "main config env = (Returned 0, st)
           \<and> threads st = map (\<lambda>j. dispatched config env j calloc_thread_info)
                             [0..<nat (sint (number_of_runs config))]
           \<and> errors st = of_nat (length (filter (\<lambda>t. curl_error_code t \<noteq> 0) (threads st)))
           \<and> stdout_of (out st) =
               map (\<lambda>t. record_line t (timespec_diff_macro (end' t) (start t)))
                 (filter (\<lambda>t. silent config = 0 \<or> curl_error_code t \<noteq> 0) (threads st))
               @ [summary_line (errors st) (number_of_runs config)
                    (timespec_diff_macro (clock_program_end env) (clock_program_start env))]" ..
  then show thesis using that by (elim conjE)
qed

section \<open>Ordinals\<close>

text \<open>
  Claim C8. In a run that completes (with the worker count below \<open>2 ^ 31\<close>, the range
  of the \<^verbatim>\<open>int\<close> field \<open>thread_num\<close>), the ordinal stored in record \<open>i\<close> is \<open>i\<close>
  for every \<open>i\<close> from 0 to \<open>N - 1\<close>, so the ordinals are pairwise distinct and cover
  exactly that range; and the record lines on standard output follow the order of the
  array, the line of record \<open>i\<close> before the line of record \<open>i + 1\<close>, with the
  summary last.
\<close>

theorem C8_ordinals_cover_range_in_order:
  assumes "validate_configuration config \<noteq> 0"
    and "sint (number_of_runs config) < 2 ^ 31"
    and "calloc_ok env"
    and "\<forall>j < nat (sint (number_of_runs config)). create_result env j = 0"
    and "\<forall>j < nat (sint (number_of_runs config)). join_result env j = 0"
  shows "\<exists>st. main config env = (Returned 0, st)
           \<and> length (threads st) = nat (sint (number_of_runs config))
           \<and> (\<forall>i < length (threads st). sint (thread_num (threads st ! i)) = int i)
           \<and> map (\<lambda>t. sint (thread_num t)) (threads st)
               = map int [0..<nat (sint (number_of_runs config))]
           \<and> distinct (map thread_num (threads st))
           \<and> stdout_of (out st) =
               map (\<lambda>t. record_line t (timespec_diff_macro (end' t) (start t)))
                 (filter (\<lambda>t. silent config = 0 \<or> curl_error_code t \<noteq> 0) (threads st))
               @ [summary_line (errors st) (number_of_runs config)
                    (timespec_diff_macro (clock_program_end env) (clock_program_start env))]"
proof -
  let ?n = "nat (sint (number_of_runs config))"
  obtain st where st:
    "main config env = (Returned 0, st)"
    "threads st = map (\<lambda>j. dispatched config env j calloc_thread_info) [0..<?n]"
    "errors st = of_nat (length (filter (\<lambda>t. curl_error_code t \<noteq> 0) (threads st)))"
    "stdout_of (out st) =
       map (\<lambda>t. record_line t (timespec_diff_macro (end' t) (start t)))
         (filter (\<lambda>t. silent config = 0 \<or> curl_error_code t \<noteq> 0) (threads st))
       @ [summary_line (errors st) (number_of_runs config)
            (timespec_diff_macro (clock_program_end env) (clock_program_start env))]"
    by (rule main_completesE [OF assms(1,3,4,5)])
  have len: "length (threads st) = ?n" using st(2) by simp
  have small: "i < 2 ^ 31" if "i < ?n" for i
  proof -
    have "int i < sint (number_of_runs config)" using that by simp
    then have "int i < int (2 ^ 31)" using assms(2) by simp
    then show ?thesis by (simp only: of_nat_less_iff)
  qed
  have ord: "sint (thread_num (threads st ! i)) = int i" if "i < ?n" for i
    using that st(2) small [OF that] by (simp add: dispatched_thread_num sint_of_nat_int)
  have all: "\<forall>i < length (threads st). sint (thread_num (threads st ! i)) = int i"
    using ord len by simp
  have maps: "map (\<lambda>t. sint (thread_num t)) (threads st) = map int [0..<?n]"
    by (rule nth_equalityI) (simp_all add: len ord)
  have "distinct (map int [0..<?n])"
    by (simp add: distinct_map inj_on_def)
  then have "distinct (map (\<lambda>t. sint (thread_num t)) (threads st))"
    using maps by simp
  then have "distinct (map (sint \<circ> thread_num) (threads st))"
    by (simp add: comp_def)
  then have dist: "distinct (map thread_num (threads st))"
    using distinct_map [of "sint :: cint \<Rightarrow> int" "map thread_num (threads st)"]
    by (simp add: distinct_map)
  show ?thesis using st(1,4) len all maps dist by blast
qed

theorem C8_ordinals_cover_range_in_order_witness:
  "\<exists>st. main demo_config demo_env = (Returned 0, st)
      \<and> map (\<lambda>t. sint (thread_num t)) (threads st) = [0, 1]
      \<and> distinct (map thread_num (threads st))"
proof -
  have n2: "sint (number_of_runs demo_config) < 2 ^ 31"
    by (simp add: demo_config_def)
  obtain st where "main demo_config demo_env = (Returned 0, st)"
    and "map (\<lambda>t. sint (thread_num t)) (threads st)
         = map int [0..<nat (sint (number_of_runs demo_config))]"
    and "distinct (map thread_num (threads st))"
    using C8_ordinals_cover_range_in_order [OF demo_valid n2 demo_calloc demo_creates demo_joins]
    by blast
  moreover have "map int [0..<nat (sint (number_of_runs demo_config))] = [0, 1]"
    by (simp add: demo_runs numeral_2_eq_2)
  ultimately show ?thesis by auto
qed

section \<open>Aggregation reads, never writes\<close>

text \<open>
  Claim C9. Aggregation is idempotent. When the joins succeed, the second loop
  (elapsed time, error classification and error counting for each record) returns with
  the array unchanged, and running it again from the same starting counter and output
  on the array it left gives the same error count and the same output.
\<close>

theorem C9_aggregation_idempotent:
  assumes "\<forall>j < n. join_result env j = 0"
  shows "\<exists>st1. join_loop config env n 0 \<lparr>threads = ths, errors = e, out = events\<rparr> = Inr st1
           \<and> threads st1 = ths
           \<and> join_loop config env n 0 \<lparr>threads = threads st1, errors = e, out = events\<rparr> = Inr st1"
proof -
  have "\<forall>j. 0 \<le> j \<and> j < n \<longrightarrow> join_result env j = 0" using assms by simp
  then obtain st1 where
    "join_loop config env n 0 \<lparr>threads = ths, errors = e, out = events\<rparr> = Inr st1"
    "threads st1 = threads \<lparr>threads = ths, errors = e, out = events\<rparr>"
    using join_loop_ok [of 0 n env config "\<lparr>threads = ths, errors = e, out = events\<rparr>"] by blast
  then show ?thesis by simp
qed

theorem C9_aggregation_idempotent_witness:
  "\<exists>st1. join_loop demo_config demo_env 2 0
            \<lparr>threads = [calloc_thread_info\<lparr>curl_error_code := 7\<rparr>, calloc_thread_info],
             errors = 0, out = []\<rparr> = Inr st1
      \<and> join_loop demo_config demo_env 2 0 \<lparr>threads = threads st1, errors = 0, out = []\<rparr>
          = Inr st1"
proof -
  have "\<forall>j < 2. join_result demo_env j = 0" by (simp add: demo_env_def)
  from C9_aggregation_idempotent [OF this] show ?thesis by blast
qed

section \<open>The timing bracket of a worker\<close>

lemma start_curl_run_times:
  "start (fst (start_curl_run w arg)) = clock_start w"
  "end' (fst (start_curl_run w arg)) = clock_end w"
  by (simp_all add: start_curl_run_def Let_def split: option.splits)

lemma start_curl_run_calls:
  "snd (start_curl_run w arg) =
     (case easy_init w of
        Some tr \<Rightarrow> [Timespec_get_start, Curl_easy_init, Curl_easy_perform, Curl_easy_cleanup,
                    Timespec_get_end]
      | None \<Rightarrow> [Timespec_get_start, Curl_easy_init,
                 Fprintf_stderr (''unable to initialize curl object for thread_number: ''
                                 @ printf_ld (sint (thread_num arg))),
                 Timespec_get_end])"
  by (simp add: start_curl_run_def Let_def split: option.splits)

text \<open>
  Claim C6. A worker reads the clock into \<open>start\<close> before it calls
  \<^verbatim>\<open>curl_easy_init\<close>, and reads the clock into \<open>end'\<close> as its last call, whether the
  handle was created (and the transfer performed, with any result) or not. Each of the
  two reads happens exactly once, and the record it returns holds the two readings. In
  a run that completes, every record of the array holds the readings of its worker.
\<close>

theorem C6_timing_bracket:
  "hd (snd (start_curl_run w arg)) = Timespec_get_start
   \<and> snd (start_curl_run w arg) ! 1 = Curl_easy_init
   \<and> last (snd (start_curl_run w arg)) = Timespec_get_end
   \<and> count_list (snd (start_curl_run w arg)) Timespec_get_start = 1
   \<and> count_list (snd (start_curl_run w arg)) Timespec_get_end = 1
   \<and> count_list (snd (start_curl_run w arg)) Curl_easy_init = 1
   \<and> start (fst (start_curl_run w arg)) = clock_start w
   \<and> end' (fst (start_curl_run w arg)) = clock_end w
   \<and> (validate_configuration config \<noteq> 0 \<and> calloc_ok env
        \<and> (\<forall>j < nat (sint (number_of_runs config)). create_result env j = 0)
        \<and> (\<forall>j < nat (sint (number_of_runs config)). join_result env j = 0)
      \<longrightarrow> (\<exists>st. main config env = (Returned 0, st)
             \<and> length (threads st) = nat (sint (number_of_runs config))
             \<and> (\<forall>i < length (threads st).
                   start (threads st ! i) = clock_start (worker env i)
                   \<and> end' (threads st ! i) = clock_end (worker env i))))"
proof -
  have calls: "hd (snd (start_curl_run w arg)) = Timespec_get_start
     \<and> snd (start_curl_run w arg) ! 1 = Curl_easy_init
     \<and> last (snd (start_curl_run w arg)) = Timespec_get_end
     \<and> count_list (snd (start_curl_run w arg)) Timespec_get_start = 1
     \<and> count_list (snd (start_curl_run w arg)) Timespec_get_end = 1
     \<and> count_list (snd (start_curl_run w arg)) Curl_easy_init = 1"
    unfolding start_curl_run_calls by (cases "easy_init w") simp_all
  have run: "\<exists>st. main config env = (Returned 0, st)
             \<and> length (threads st) = nat (sint (number_of_runs config))
             \<and> (\<forall>i < length (threads st).
                   start (threads st ! i) = clock_start (worker env i)
                   \<and> end' (threads st ! i) = clock_end (worker env i))"
    if h: "validate_configuration config \<noteq> 0 \<and> calloc_ok env
        \<and> (\<forall>j < nat (sint (number_of_runs config)). create_result env j = 0)
        \<and> (\<forall>j < nat (sint (number_of_runs config)). join_result env j = 0)"
  proof -
    obtain st where st:
      "main config env = (Returned 0, st)"
      "threads st = map (\<lambda>j. dispatched config env j calloc_thread_info)
                        [0..<nat (sint (number_of_runs config))]"
      "errors st = of_nat (length (filter (\<lambda>t. curl_error_code t \<noteq> 0) (threads st)))"
      "stdout_of (out st) =
           map (\<lambda>t. record_line t (timespec_diff_macro (end' t) (start t)))
             (filter (\<lambda>t. silent config = 0 \<or> curl_error_code t \<noteq> 0) (threads st))
           @ [summary_line (errors st) (number_of_runs config)
                (timespec_diff_macro (clock_program_end env) (clock_program_start env))]"
      using h by (elim conjE) (rule main_completesE)
    have "length (threads st) = nat (sint (number_of_runs config))"
      using st(2) by simp
    moreover have "\<forall>i < length (threads st).
                   start (threads st ! i) = clock_start (worker env i)
                   \<and> end' (threads st ! i) = clock_end (worker env i)"
      using st(2) by (simp add: dispatched_times)
    ultimately show ?thesis using st(1) by blast
  qed
  show ?thesis
    using calls start_curl_run_times [of w arg] run by blast
qed

theorem C6_timing_bracket_witness:
  "snd (start_curl_run (demo_worker 0) calloc_thread_info) ! 1 = Curl_easy_init
   \<and> start (fst (start_curl_run (demo_worker 0) calloc_thread_info))
       = \<lparr>tv_sec = 5, tv_nsec = 900000000\<rparr>
   \<and> end' (fst (start_curl_run (demo_worker 0) calloc_thread_info))
       = \<lparr>tv_sec = 6, tv_nsec = 100000000\<rparr>
   \<and> (\<exists>st. main demo_config demo_env = (Returned 0, st)
          \<and> length (threads st) = 2
          \<and> (\<forall>i < length (threads st).
                start (threads st ! i) = clock_start (demo_worker i)
                \<and> end' (threads st ! i) = clock_end (demo_worker i)))"
proof -
  note c6 = C6_timing_bracket [of "demo_worker 0" calloc_thread_info demo_config demo_env]
  have head: "snd (start_curl_run (demo_worker 0) calloc_thread_info) ! 1 = Curl_easy_init"
    and s: "start (fst (start_curl_run (demo_worker 0) calloc_thread_info)) = clock_start (demo_worker 0)"
    and e: "end' (fst (start_curl_run (demo_worker 0) calloc_thread_info)) = clock_end (demo_worker 0)"
    using c6 by blast+
  have "\<exists>st. main demo_config demo_env = (Returned 0, st)
          \<and> length (threads st) = nat (sint (number_of_runs demo_config))
          \<and> (\<forall>i < length (threads st).
                start (threads st ! i) = clock_start (worker demo_env i)
                \<and> end' (threads st ! i) = clock_end (worker demo_env i))"
    using c6 demo_valid demo_calloc demo_creates demo_joins by blast
  then have run: "\<exists>st. main demo_config demo_env = (Returned 0, st)
          \<and> length (threads st) = 2
          \<and> (\<forall>i < length (threads st).
                start (threads st ! i) = clock_start (demo_worker i)
                \<and> end' (threads st ! i) = clock_end (demo_worker i))"
    by (simp add: demo_runs) (simp add: demo_env_def)
  show ?thesis
    using head s e run by (simp add: demo_worker_def)
qed

section \<open>A worker without a handle\<close>

lemma dispatched_no_handle:
  assumes "easy_init (worker env i) = None"
  shows "response_code (dispatched config env i t) = response_code t"
    and "os_error_code (dispatched config env i t) = os_error_code t"
    and "curl_error_code (dispatched config env i t) = curl_error_code t"
    and "curl_total (dispatched config env i t) = curl_total t"
    and "curl_error_string (dispatched config env i t) = curl_error_string t"
  using assms by (simp_all add: dispatched_def start_curl_run_def Let_def)

text \<open>
  Claim C10. When \<^verbatim>\<open>curl_easy_init\<close> fails in worker \<open>i\<close>, the record of that worker
  keeps the zeros it got from \<^verbatim>\<open>calloc\<close> in \<open>response_code\<close>, \<open>os_error_code\<close>,
  \<open>curl_error_code\<close> and \<open>curl_total\<close>, and its error string stays empty. The
  aggregator therefore treats it as a success: on that record it leaves the error
  counter alone, and in silent mode it prints nothing.
\<close>

theorem C10_init_failure_counts_as_success:
  assumes "validate_configuration config \<noteq> 0"
    and "calloc_ok env"
    and "\<forall>j < nat (sint (number_of_runs config)). create_result env j = 0"
    and "\<forall>j < nat (sint (number_of_runs config)). join_result env j = 0"
    and "i < nat (sint (number_of_runs config))"
    and "easy_init (worker env i) = None"
  shows "\<exists>st. main config env = (Returned 0, st)
           \<and> response_code (threads st ! i) = 0
           \<and> os_error_code (threads st ! i) = 0
           \<and> curl_error_code (threads st ! i) = 0
           \<and> curl_total (threads st ! i) = 0
           \<and> curl_error_string (threads st ! i) = []
           \<and> (\<forall>e events.
                 errors (aggregate_record config i \<lparr>threads = threads st, errors = e, out = events\<rparr>)
                   = e
                 \<and> (silent config \<noteq> 0 \<longrightarrow>
                      out (aggregate_record config i
                             \<lparr>threads = threads st, errors = e, out = events\<rparr>) = events))"
proof -
  obtain st where st:
    "main config env = (Returned 0, st)"
    "threads st = map (\<lambda>j. dispatched config env j calloc_thread_info)
                      [0..<nat (sint (number_of_runs config))]"
    "errors st = of_nat (length (filter (\<lambda>t. curl_error_code t \<noteq> 0) (threads st)))"
    "stdout_of (out st) =
         map (\<lambda>t. record_line t (timespec_diff_macro (end' t) (start t)))
           (filter (\<lambda>t. silent config = 0 \<or> curl_error_code t \<noteq> 0) (threads st))
         @ [summary_line (errors st) (number_of_runs config)
              (timespec_diff_macro (clock_program_end env) (clock_program_start env))]"
    by (rule main_completesE [OF assms(1-4)])
  have slot: "threads st ! i = dispatched config env i calloc_thread_info"
    using st(2) assms(5) by simp
  have zeros: "response_code (threads st ! i) = 0" "os_error_code (threads st ! i) = 0"
    "curl_error_code (threads st ! i) = 0" "curl_total (threads st ! i) = 0"
    "curl_error_string (threads st ! i) = []"
    unfolding slot by (simp_all add: dispatched_no_handle [OF assms(6)] calloc_thread_info_def)
  have agg: "errors (aggregate_record config i \<lparr>threads = threads st, errors = e, out = events\<rparr>) = e
        \<and> (silent config \<noteq> 0 \<longrightarrow>
             out (aggregate_record config i \<lparr>threads = threads st, errors = e, out = events\<rparr>)
               = events)" for e events
    using zeros(3) by (simp add: aggregate_record_def Let_def)
  show ?thesis using st(1) zeros agg by blast
qed

text \<open>The sample run with a second worker that gets no handle.\<close>

theorem C10_init_failure_counts_as_success_witness:
  "\<exists>st. main demo_config
           (demo_env\<lparr>worker := \<lambda>i. if i = 1 then (demo_worker 1)\<lparr>easy_init := None\<rparr>
                                   else demo_worker i\<rparr>) = (Returned 0, st)
      \<and> curl_error_code (threads st ! 1) = 0
      \<and> curl_error_string (threads st ! 1) = []
      \<and> errors (aggregate_record demo_config 1 \<lparr>threads = threads st, errors = 0, out = []\<rparr>) = 0
      \<and> out (aggregate_record demo_config 1 \<lparr>threads = threads st, errors = 0, out = []\<rparr>) = []"
proof -
  let ?env = "demo_env\<lparr>worker := \<lambda>i. if i = 1 then (demo_worker 1)\<lparr>easy_init := None\<rparr>
                                      else demo_worker i\<rparr>"
  have a: "calloc_ok ?env" by (simp add: demo_env_def)
  have b: "\<forall>j < nat (sint (number_of_runs demo_config)). create_result ?env j = 0"
    by (simp add: demo_env_def)
  have c: "\<forall>j < nat (sint (number_of_runs demo_config)). join_result ?env j = 0"
    by (simp add: demo_env_def)
  have d: "1 < nat (sint (number_of_runs demo_config))" by (simp add: demo_runs)
  have e: "easy_init (worker ?env 1) = None" by simp
  have s: "silent demo_config \<noteq> 0" by (simp add: demo_config_def)
  from C10_init_failure_counts_as_success [OF demo_valid a b c d e] s
  show ?thesis by blast
qed

section \<open>Invalid configurations\<close>

text \<open>
  Claim C5. With a worker count of zero or without a URL, the program prints the four
  lines of usage text on standard output and exits with status 1, and does nothing
  else: no allocation, no thread creation, no join, and no record exists.
\<close>

theorem C5_invalid_configuration_usage:
  assumes "configuration.url config = None \<or> number_of_runs config = 0"
  shows "main config env =
           (Exited 1,
            \<lparr>threads = [], errors = 0,
             out = map Stdout
               [''Usage: '' @ printf_s (program_name config)
                  @ '' -u URL -r number of runs ][-s produce less output]'' @ [NL],
                ''Pipe through tee to create a logfile'' @ [NL],
                [TAB] @ printf_s (program_name config)
                  @ '' -u http://localhost -r 30000 | tee full.log'' @ [NL],
                [TAB] @ printf_s (program_name config)
                  @ '' -u http://localhost -r 30000 -s | tee error.log'' @ [NL]]\<rparr>)
         \<and> (1 :: cint) \<noteq> 0"
  using assms by (auto simp add: main_def validate_configuration_def usage_def)

theorem C5_invalid_configuration_usage_witness:
  "fst (main (demo_config\<lparr>number_of_runs := 0\<rparr>) demo_env) = Exited 1
   \<and> threads (snd (main (demo_config\<lparr>number_of_runs := 0\<rparr>) demo_env)) = []
   \<and> fst (main (demo_config\<lparr>configuration.url := None\<rparr>) demo_env) = Exited 1
   \<and> length (out (snd (main (demo_config\<lparr>configuration.url := None\<rparr>) demo_env))) = 4"
  using C5_invalid_configuration_usage [of "demo_config\<lparr>number_of_runs := 0\<rparr>" demo_env]
    C5_invalid_configuration_usage [of "demo_config\<lparr>configuration.url := None\<rparr>" demo_env]
  by simp

section \<open>Decimal output names its number\<close>

lemma digit_code:
  assumes "d < 10"
  shows "of_char (digit d) = 48 + d"
proof -
  from assms have "d = 0 \<or> d = 1 \<or> d = 2 \<or> d = 3 \<or> d = 4 \<or> d = 5 \<or> d = 6 \<or> d = 7
                   \<or> d = 8 \<or> d = 9"
    by arith
  then show ?thesis
    by (elim disjE) (simp_all add: digit_def)
qed

lemma digit_inj:
  assumes "d < 10" and "d' < 10" and "digit d = digit d'"
  shows "d = d'"
proof -
  have "(of_char (digit d) :: nat) = of_char (digit d')" using assms(3) by simp
  then show ?thesis using digit_code [OF assms(1)] digit_code [OF assms(2)] by simp
qed

lemma decimal_not_Nil: "decimal n \<noteq> []"
  by (subst decimal.simps) simp

lemma decimal_inj: "decimal a = decimal b \<Longrightarrow> a = b"
proof (induction a arbitrary: b rule: decimal.induct)
  case (1 n)
  show ?case
  proof (cases "n < 10")
    case small: True
    show ?thesis
    proof (cases "b < 10")
      case True
      then show ?thesis
        using "1.prems" small digit_inj [of n b]
        by (simp add: decimal.simps [of n] decimal.simps [of b])
    next
      case False
      then have "decimal b = decimal (b div 10) @ [digit (b mod 10)]"
        by (subst decimal.simps) simp
      then have "length (decimal b) \<noteq> 1"
        using decimal_not_Nil [of "b div 10"] by (cases "decimal (b div 10)") simp_all
      moreover have "length (decimal n) = 1" using small by (simp add: decimal.simps [of n])
      ultimately show ?thesis using "1.prems" by simp
    qed
  next
    case big: False
    then have dn: "decimal n = decimal (n div 10) @ [digit (n mod 10)]"
      by (subst decimal.simps) simp
    show ?thesis
    proof (cases "b < 10")
      case True
      have "length (decimal n) \<noteq> 1"
        using dn decimal_not_Nil [of "n div 10"] by (cases "decimal (n div 10)") simp_all
      moreover have "length (decimal b) = 1" using True by (simp add: decimal.simps [of b])
      ultimately show ?thesis using "1.prems" by simp
    next
      case False
      then have db: "decimal b = decimal (b div 10) @ [digit (b mod 10)]"
        by (subst decimal.simps) simp
      from "1.prems" dn db have "decimal (n div 10) = decimal (b div 10)"
        and "digit (n mod 10) = digit (b mod 10)" by simp_all
      then have "n div 10 = b div 10" and "n mod 10 = b mod 10"
        using "1.IH" [OF big] digit_inj [of "n mod 10" "b mod 10"] by simp_all
      then show ?thesis by (metis div_mult_mod_eq)
    qed
  qed
qed

lemma printf_ld_nat_inj: "printf_ld (int a) = printf_ld (int b) \<Longrightarrow> a = b"
  by (simp add: printf_ld_def decimal_inj)

section \<open>Failing thread creation and join\<close>

text \<open>
  Claim C4. If a \<^verbatim>\<open>pthread_create\<close> fails, or a \<^verbatim>\<open>pthread_join\<close> fails, the process
  exits at once with the non-zero status \<^verbatim>\<open>EXIT_FAILURE\<close>: the failing call and the
  \<^verbatim>\<open>perror\<close> diagnostic are the last two things it does, and the diagnostic ends in the
  decimal ordinal of the failing worker, which determines that ordinal. What the
  transfers report never causes such an exit: when every creation and every join
  succeeds, \<open>main\<close> returns 0 whatever the workers observe.
\<close>

theorem C4_thread_failure_aborts:
  "(validate_configuration config \<noteq> 0 \<and> calloc_ok env
      \<and> k < nat (sint (number_of_runs config))
      \<and> (\<forall>j < k. create_result env j = 0) \<and> create_result env k \<noteq> 0
    \<longrightarrow> (\<exists>st pre. main config env = (Exited EXIT_FAILURE, st)
           \<and> out st = pre @ [Pthread_create k (create_result env k),
                              Perror (create_result env k)
                                (''pthread_create: thread_num '' @ printf_ld (int k))]))
   \<and> (validate_configuration config \<noteq> 0 \<and> calloc_ok env
      \<and> (\<forall>j < nat (sint (number_of_runs config)). create_result env j = 0)
      \<and> k < nat (sint (number_of_runs config))
      \<and> (\<forall>j < k. join_result env j = 0) \<and> join_result env k \<noteq> 0
    \<longrightarrow> (\<exists>st pre. main config env = (Exited EXIT_FAILURE, st)
           \<and> out st = pre @ [Pthread_join k (join_result env k),
                              Perror (join_result env k)
                                (''pthread_join: thread_num '' @ printf_ld (int k))]))
   \<and> (validate_configuration config \<noteq> 0 \<and> calloc_ok env
      \<and> (\<forall>j < nat (sint (number_of_runs config)). create_result env j = 0)
      \<and> (\<forall>j < nat (sint (number_of_runs config)). join_result env j = 0)
    \<longrightarrow> (\<forall>w. fst (main config (env\<lparr>worker := w\<rparr>)) = Returned 0))
   \<and> EXIT_FAILURE \<noteq> 0
   \<and> (\<forall>k'. printf_ld (int k') = printf_ld (int k) \<longrightarrow> k' = k)"
proof (intro conjI impI allI)
  assume "validate_configuration config \<noteq> 0 \<and> calloc_ok env
      \<and> k < nat (sint (number_of_runs config))
      \<and> (\<forall>j < k. create_result env j = 0) \<and> create_result env k \<noteq> 0"
  then obtain st pre where "main config env = (Exited EXIT_FAILURE, st)"
    "out st = pre @ [Pthread_create k (create_result env k),
                     Perror (create_result env k)
                       (''pthread_create: thread_num '' @ printf_ld (int k))]"
    "stdout_of (out st) = []"
    using main_create_fails [of config env k] by blast
  then show "\<exists>st pre. main config env = (Exited EXIT_FAILURE, st)
           \<and> out st = pre @ [Pthread_create k (create_result env k),
                              Perror (create_result env k)
                                (''pthread_create: thread_num '' @ printf_ld (int k))]"
    by blast
next
  assume "validate_configuration config \<noteq> 0 \<and> calloc_ok env
      \<and> (\<forall>j < nat (sint (number_of_runs config)). create_result env j = 0)
      \<and> k < nat (sint (number_of_runs config))
      \<and> (\<forall>j < k. join_result env j = 0) \<and> join_result env k \<noteq> 0"
  then show "\<exists>st pre. main config env = (Exited EXIT_FAILURE, st)
           \<and> out st = pre @ [Pthread_join k (join_result env k),
                              Perror (join_result env k)
                                (''pthread_join: thread_num '' @ printf_ld (int k))]"
    using main_join_fails [of config env k] by blast
next
  fix w
  assume h: "validate_configuration config \<noteq> 0 \<and> calloc_ok env
      \<and> (\<forall>j < nat (sint (number_of_runs config)). create_result env j = 0)
      \<and> (\<forall>j < nat (sint (number_of_runs config)). join_result env j = 0)"
  have "\<exists>st. main config (env\<lparr>worker := w\<rparr>) = (Returned 0, st)"
    using h main_completes [of config "env\<lparr>worker := w\<rparr>"] by auto
  then show "fst (main config (env\<lparr>worker := w\<rparr>)) = Returned 0"
    by auto
next
  show "EXIT_FAILURE \<noteq> 0" by (simp add: EXIT_FAILURE_def)
next
  fix k' assume "printf_ld (int k') = printf_ld (int k)"
  then show "k' = k" by (rule printf_ld_nat_inj)
qed

text \<open>
  The sample run with a second \<^verbatim>\<open>pthread_create\<close> that fails with \<^verbatim>\<open>EAGAIN\<close> (11), with
  a second \<^verbatim>\<open>pthread_join\<close> that fails with \<^verbatim>\<open>ESRCH\<close> (3), and with two failing
  transfers.
\<close>

theorem C4_thread_failure_aborts_witness:
  "(\<exists>st pre. main demo_config (demo_env\<lparr>create_result := \<lambda>j. if j = 1 then 11 else 0\<rparr>)
                = (Exited EXIT_FAILURE, st)
              \<and> out st = pre @ [Pthread_create 1 11,
                                 Perror 11 ''pthread_create: thread_num 1''])
   \<and> (\<exists>st pre. main demo_config (demo_env\<lparr>join_result := \<lambda>j. if j = 1 then 3 else 0\<rparr>)
                = (Exited EXIT_FAILURE, st)
              \<and> out st = pre @ [Pthread_join 1 3, Perror 3 ''pthread_join: thread_num 1''])
   \<and> fst (main demo_config (demo_env\<lparr>worker := \<lambda>i. demo_worker 0\<rparr>)) = Returned 0"
proof -
  have one: "printf_ld (int 1) = ''1''"
    by (simp add: printf_ld_def decimal.simps digit_def)
  have k: "1 < nat (sint (number_of_runs demo_config))" by (simp add: demo_runs)
  let ?env1 = "demo_env\<lparr>create_result := \<lambda>j. if j = 1 then 11 else 0\<rparr>"
  have "validate_configuration demo_config \<noteq> 0 \<and> calloc_ok ?env1
      \<and> 1 < nat (sint (number_of_runs demo_config))
      \<and> (\<forall>j < 1. create_result ?env1 j = 0) \<and> create_result ?env1 1 \<noteq> 0"
    using demo_valid k by (simp add: demo_env_def)
  then have a: "\<exists>st pre. main demo_config ?env1 = (Exited EXIT_FAILURE, st)
           \<and> out st = pre @ [Pthread_create 1 (create_result ?env1 1),
                              Perror (create_result ?env1 1)
                                (''pthread_create: thread_num '' @ printf_ld (int 1))]"
    using C4_thread_failure_aborts [of demo_config ?env1 1] by blast
  let ?env2 = "demo_env\<lparr>join_result := \<lambda>j. if j = 1 then 3 else 0\<rparr>"
  have "validate_configuration demo_config \<noteq> 0 \<and> calloc_ok ?env2
      \<and> (\<forall>j < nat (sint (number_of_runs demo_config)). create_result ?env2 j = 0)
      \<and> 1 < nat (sint (number_of_runs demo_config))
      \<and> (\<forall>j < 1. join_result ?env2 j = 0) \<and> join_result ?env2 1 \<noteq> 0"
    using demo_valid k by (simp add: demo_env_def)
  then have b: "\<exists>st pre. main demo_config ?env2 = (Exited EXIT_FAILURE, st)
           \<and> out st = pre @ [Pthread_join 1 (join_result ?env2 1),
                              Perror (join_result ?env2 1)
                                (''pthread_join: thread_num '' @ printf_ld (int 1))]"
    using C4_thread_failure_aborts [of demo_config ?env2 1] by blast
  have "validate_configuration demo_config \<noteq> 0 \<and> calloc_ok demo_env
      \<and> (\<forall>j < nat (sint (number_of_runs demo_config)). create_result demo_env j = 0)
      \<and> (\<forall>j < nat (sint (number_of_runs demo_config)). join_result demo_env j = 0)"
    using demo_valid demo_calloc demo_creates demo_joins by simp
  then have c: "fst (main demo_config (demo_env\<lparr>worker := \<lambda>i. demo_worker 0\<rparr>)) = Returned 0"
    using C4_thread_failure_aborts [of demo_config demo_env 0] by blast
  from a have a': "\<exists>st pre. main demo_config ?env1 = (Exited EXIT_FAILURE, st)
              \<and> out st = pre @ [Pthread_create 1 11,
                                 Perror 11 ''pthread_create: thread_num 1'']"
    unfolding one by simp
  from b have b': "\<exists>st pre. main demo_config ?env2 = (Exited EXIT_FAILURE, st)
              \<and> out st = pre @ [Pthread_join 1 3, Perror 3 ''pthread_join: thread_num 1'']"
    unfolding one by simp
  from a' b' c show ?thesis by (intro conjI)
qed

section \<open>The newline of a record line\<close>

lemma replicate_numeral_Cons: "replicate (numeral k) x = x # replicate (pred_numeral k) x"
  by (simp add: numeral_eq_Suc)


text \<open>
  Where the error string holds no newline, the line printed for a record ends in the
  one newline that the program appends; where its only newline is its last character,
  the line ends in that newline and the program appends none.
\<close>

lemma record_line_no_newline:
  assumes "NL \<notin> set (curl_error_string t)"
  shows "\<exists>pre. record_line t elapsed = pre @ '': curl_error='' @ curl_error_string t @ [NL]"
proof -
  have "strrchr (curl_error_string t) NL = None"
    using assms by (simp add: strrchr_None_iff)
  then show ?thesis
    by (intro exI [of _ "''Thread='' @ printf_ld (sint (thread_num t))
         @ '': response_code='' @ printf_ld (sint (response_code t))
         @ '': seconds='' @ printf_ld (sint (tv_sec elapsed))
         @ ''.'' @ printf_0ld 9 (sint (tv_nsec elapsed))
         @ '': curl_time_t='' @ printf_0ld 6 (sint (curl_total t))
         @ '': os_error_code='' @ printf_ld (sint (os_error_code t))
         @ '': curl_error_code='' @ printf_ld (sint (curl_error_code t))"])
       (simp add: record_line_def)
qed

lemma record_line_trailing_newline:
  assumes "curl_error_string t = s @ [NL]"
  shows "\<exists>pre. record_line t elapsed = pre @ '': curl_error='' @ s @ [NL]"
proof -
  have "strrchr (curl_error_string t) NL \<noteq> None"
    using assms by (simp add: strrchr_None_iff)
  then obtain k where "strrchr (curl_error_string t) NL = Some k" by blast
  then show ?thesis
    by (intro exI [of _ "''Thread='' @ printf_ld (sint (thread_num t))
         @ '': response_code='' @ printf_ld (sint (response_code t))
         @ '': seconds='' @ printf_ld (sint (tv_sec elapsed))
         @ ''.'' @ printf_0ld 9 (sint (tv_nsec elapsed))
         @ '': curl_time_t='' @ printf_0ld 6 (sint (curl_total t))
         @ '': os_error_code='' @ printf_ld (sint (os_error_code t))
         @ '': curl_error_code='' @ printf_ld (sint (curl_error_code t))"])
       (simp add: record_line_def assms)
qed

text \<open>
  Claim C7 (the program at the input where it departs from the claim). For the error
  string \<^verbatim>\<open>a\<close>, newline, \<^verbatim>\<open>b\<close>, the program finds a newline with \<^verbatim>\<open>strrchr\<close> and
  appends none: the text printed for the record spans two lines and does not end in a
  newline.
\<close>

theorem C7_embedded_newline_line:
  "record_line (calloc_thread_info\<lparr>curl_error_code := 7,
                                    curl_error_string := ''a'' @ [NL] @ ''b''\<rparr>)
               \<lparr>tv_sec = 0, tv_nsec = 0\<rparr>
   = ''Thread=0: response_code=0: seconds=0.000000000: curl_time_t=000000: os_error_code=0: curl_error_code=7: curl_error=a''
     @ [NL] @ ''b''"
  by (simp add: record_line_def Let_def calloc_thread_info_def printf_ld_def printf_0ld_def
        decimal.simps digit_def replicate_numeral_Cons)

section \<open>The output of the sample run\<close>

lemma upt_two: "[0..<2] = [0, 1]"
  by (simp add: numeral_2_eq_2)

lemma demo_record_0:
  "dispatched demo_config demo_env 0 calloc_thread_info
   = \<lparr>thread_id = 1, thread_num = 0, url = Some ''http://localhost'',
       start = \<lparr>tv_sec = 5, tv_nsec = 900000000\<rparr>, end' = \<lparr>tv_sec = 6, tv_nsec = 100000000\<rparr>,
       response_code = 0, os_error_code = 111, curl_error_code = 7,
       curl_error_string = ''Failed to connect'', curl_total = 1234\<rparr>"
  by (simp add: dispatched_def start_curl_run_def Let_def demo_config_def
        demo_env_def demo_worker_def calloc_thread_info_def)

lemma demo_record_1:
  "dispatched demo_config demo_env 1 calloc_thread_info
   = \<lparr>thread_id = 2, thread_num = 1, url = Some ''http://localhost'',
       start = \<lparr>tv_sec = 5, tv_nsec = 900200000\<rparr>, end' = \<lparr>tv_sec = 5, tv_nsec = 950000000\<rparr>,
       response_code = 200, os_error_code = 0, curl_error_code = 0,
       curl_error_string = [], curl_total = 45678\<rparr>"
  by (simp add: dispatched_def start_curl_run_def Let_def demo_config_def
        demo_env_def demo_worker_def calloc_thread_info_def)

lemma demo_threads:
  "map (\<lambda>j. dispatched demo_config demo_env j calloc_thread_info)
     [0..<nat (sint (number_of_runs demo_config))]
   = [\<lparr>thread_id = 1, thread_num = 0, url = Some ''http://localhost'',
       start = \<lparr>tv_sec = 5, tv_nsec = 900000000\<rparr>, end' = \<lparr>tv_sec = 6, tv_nsec = 100000000\<rparr>,
       response_code = 0, os_error_code = 111, curl_error_code = 7,
       curl_error_string = ''Failed to connect'', curl_total = 1234\<rparr>,
      \<lparr>thread_id = 2, thread_num = 1, url = Some ''http://localhost'',
       start = \<lparr>tv_sec = 5, tv_nsec = 900200000\<rparr>, end' = \<lparr>tv_sec = 5, tv_nsec = 950000000\<rparr>,
       response_code = 200, os_error_code = 0, curl_error_code = 0,
       curl_error_string = [], curl_total = 45678\<rparr>]"
  unfolding demo_runs upt_two
  by (simp only: list.map demo_record_0 demo_record_1)

lemma demo_first_line:
  "record_line
     \<lparr>thread_id = 1, thread_num = 0, url = Some ''http://localhost'',
      start = \<lparr>tv_sec = 5, tv_nsec = 900000000\<rparr>, end' = \<lparr>tv_sec = 6, tv_nsec = 100000000\<rparr>,
      response_code = 0, os_error_code = 111, curl_error_code = 7,
      curl_error_string = ''Failed to connect'', curl_total = 1234\<rparr>
     (timespec_diff_macro \<lparr>tv_sec = 6, tv_nsec = 100000000\<rparr> \<lparr>tv_sec = 5, tv_nsec = 900000000\<rparr>)
   = ''Thread=0: response_code=0: seconds=0.200000000: curl_time_t=001234: os_error_code=111: curl_error_code=7: curl_error=Failed to connect''
     @ [NL]"
  by (simp add: record_line_def Let_def timespec_diff_macro_def word_sless_alt printf_ld_def
        printf_0ld_def decimal.simps digit_def replicate_numeral_Cons)

lemma demo_summary:
  "summary_line 1 2
     (timespec_diff_macro \<lparr>tv_sec = 6, tv_nsec = 100500000\<rparr> \<lparr>tv_sec = 5, tv_nsec = 800000000\<rparr>)
   = ''1 errors out of 2 runs in 0.300500000 real seconds'' @ [NL]"
  by (simp add: summary_line_def Let_def timespec_diff_macro_def word_sless_alt printf_ld_def
        printf_0ld_def decimal.simps digit_def replicate_numeral_Cons)

text \<open>
  In silent mode the sample run prints the line of the failed transfer and the summary.
\<close>

lemma demo_output:
  "\<exists>st. main demo_config demo_env = (Returned 0, st)
      \<and> stdout_of (out st) =
          [''Thread=0: response_code=0: seconds=0.200000000: curl_time_t=001234: os_error_code=111: curl_error_code=7: curl_error=Failed to connect''
             @ [NL],
           ''1 errors out of 2 runs in 0.300500000 real seconds'' @ [NL]]"
proof -
  obtain st where st:
    "main demo_config demo_env = (Returned 0, st)"
    "threads st = map (\<lambda>j. dispatched demo_config demo_env j calloc_thread_info)
                      [0..<nat (sint (number_of_runs demo_config))]"
    "errors st = of_nat (length (filter (\<lambda>t. curl_error_code t \<noteq> 0) (threads st)))"
    "stdout_of (out st) =
         map (\<lambda>t. record_line t (timespec_diff_macro (end' t) (start t)))
           (filter (\<lambda>t. silent demo_config = 0 \<or> curl_error_code t \<noteq> 0) (threads st))
         @ [summary_line (errors st) (number_of_runs demo_config)
              (timespec_diff_macro (clock_program_end demo_env) (clock_program_start demo_env))]"
    by (rule main_completesE [OF demo_valid demo_calloc demo_creates demo_joins])
  have sil: "silent demo_config \<noteq> 0" and runs: "number_of_runs demo_config = 2"
    by (simp_all add: demo_config_def)
  have clocks: "clock_program_end demo_env = \<lparr>tv_sec = 6, tv_nsec = 100500000\<rparr>"
    "clock_program_start demo_env = \<lparr>tv_sec = 5, tv_nsec = 800000000\<rparr>"
    by (simp_all add: demo_env_def)
  let ?r0 = "\<lparr>thread_id = 1, thread_num = 0, url = Some ''http://localhost'',
       start = \<lparr>tv_sec = 5, tv_nsec = 900000000\<rparr>, end' = \<lparr>tv_sec = 6, tv_nsec = 100000000\<rparr>,
       response_code = 0, os_error_code = 111, curl_error_code = 7,
       curl_error_string = ''Failed to connect'', curl_total = 1234\<rparr>"
  let ?r1 = "\<lparr>thread_id = 2, thread_num = 1, url = Some ''http://localhost'',
       start = \<lparr>tv_sec = 5, tv_nsec = 900200000\<rparr>, end' = \<lparr>tv_sec = 5, tv_nsec = 950000000\<rparr>,
       response_code = 200, os_error_code = 0, curl_error_code = 0,
       curl_error_string = [], curl_total = 45678\<rparr>"
  have thr: "threads st = [?r0, ?r1]"
    using st(2) demo_threads by (rule trans)
  have f1: "filter (\<lambda>t. curl_error_code t \<noteq> 0) (threads st) = [?r0]"
    unfolding thr by simp
  have f2: "filter (\<lambda>t. silent demo_config = 0 \<or> curl_error_code t \<noteq> 0) (threads st) = [?r0]"
    unfolding thr using sil by simp
  have errs: "errors st = 1"
    unfolding st(3) f1 by simp
  have line: "record_line ?r0 (timespec_diff_macro (end' ?r0) (start ?r0))
     = ''Thread=0: response_code=0: seconds=0.200000000: curl_time_t=001234: os_error_code=111: curl_error_code=7: curl_error=Failed to connect''
       @ [NL]"
    using demo_first_line by (simp only: thread_info.simps)
  have "stdout_of (out st) =
          [''Thread=0: response_code=0: seconds=0.200000000: curl_time_t=001234: os_error_code=111: curl_error_code=7: curl_error=Failed to connect''
             @ [NL],
           ''1 errors out of 2 runs in 0.300500000 real seconds'' @ [NL]]"
    unfolding st(4) f2 errs runs clocks demo_summary
    by (simp only: list.map line append_Cons append_Nil)
  with st(1) show ?thesis by (intro exI [of _ st] conjI)
qed

section \<open>Record count and error count\<close>

text \<open>
  The element that the first loop leaves at index \<open>i\<close> of the zeroed array is the
  record of worker \<open>i\<close>.
\<close>

lemma dispatched_worker_record:
  "dispatched config env i calloc_thread_info = worker_record config env i"
  by (cases "easy_init (worker env i)")
     (simp_all add: dispatched_def start_curl_run_def Let_def calloc_thread_info_def
        worker_record_def)

lemma worker_record_failed:
  "curl_error_code (worker_record config env i) \<noteq> 0 \<longleftrightarrow>
     (case easy_init (worker env i) of Some tr \<Rightarrow> curl_result tr \<noteq> 0 | None \<Rightarrow> False)"
  by (cases "easy_init (worker env i)") (simp_all add: worker_record_def ucast_up_eq_0)

lemma count_failed_workers:
  "length (filter (\<lambda>t. curl_error_code t \<noteq> 0) (map (worker_record config env) js))
   = length (filter (\<lambda>i. case easy_init (worker env i) of
                             Some tr \<Rightarrow> curl_result tr \<noteq> 0 | None \<Rightarrow> False) js)"
  by (induction js) (simp_all add: worker_record_failed)

text \<open>
  Claim C2. For a requested worker count \<open>N \<ge> 1\<close> (below \<open>2 ^ 31\<close>, the range of the
  \<^verbatim>\<open>int\<close> counter), in a run whose allocation, thread creations and joins all succeed,
  \<open>main\<close> returns 0 with exactly \<open>N\<close> records in the array, and they are the records
  of the workers: element \<open>i\<close> holds ordinal \<open>i\<close>, the clock readings of worker \<open>i\<close>
  and what its transfer reported. The error count printed at the head of the final
  summary line is the number of records whose \<open>curl_error_code\<close> is non-zero, which is
  the number of workers whose transfer returned a non-zero \<^verbatim>\<open>CURLcode\<close>.
\<close>

theorem C2_records_and_error_count:
  assumes "validate_configuration config \<noteq> 0"
    and "1 \<le> sint (number_of_runs config)"
    and "sint (number_of_runs config) < 2 ^ 31"
    and "calloc_ok env"
    and "\<forall>j < nat (sint (number_of_runs config)). create_result env j = 0"
    and "\<forall>j < nat (sint (number_of_runs config)). join_result env j = 0"
  shows "\<exists>st. main config env = (Returned 0, st)
           \<and> int (length (threads st)) = sint (number_of_runs config)
           \<and> threads st = map (worker_record config env) [0..<nat (sint (number_of_runs config))]
           \<and> sint (errors st) = int (length (filter (\<lambda>t. curl_error_code t \<noteq> 0) (threads st)))
           \<and> sint (errors st) =
               int (length (filter (\<lambda>i. case easy_init (worker env i) of
                                           Some tr \<Rightarrow> curl_result tr \<noteq> 0 | None \<Rightarrow> False)
                              [0..<nat (sint (number_of_runs config))]))
           \<and> last (stdout_of (out st)) =
               printf_ld (int (length (filter (\<lambda>t. curl_error_code t \<noteq> 0) (threads st))))
               @ '' errors out of '' @ printf_ld (sint (number_of_runs config))
               @ '' runs in ''
               @ printf_ld (sint (tv_sec (timespec_diff_macro (clock_program_end env)
                                            (clock_program_start env))))
               @ ''.''
               @ printf_0ld 9 (sint (tv_nsec (timespec_diff_macro (clock_program_end env)
                                               (clock_program_start env))))
               @ '' real seconds'' @ [NL]"
proof -
  obtain st where st:
    "main config env = (Returned 0, st)"
    "threads st = map (\<lambda>j. dispatched config env j calloc_thread_info)
                    [0..<nat (sint (number_of_runs config))]"
    "errors st = of_nat (length (filter (\<lambda>t. curl_error_code t \<noteq> 0) (threads st)))"
    "stdout_of (out st) =
       map (\<lambda>t. record_line t (timespec_diff_macro (end' t) (start t)))
         (filter (\<lambda>t. silent config = 0 \<or> curl_error_code t \<noteq> 0) (threads st))
       @ [summary_line (errors st) (number_of_runs config)
            (timespec_diff_macro (clock_program_end env) (clock_program_start env))]"
    by (rule main_completesE [OF assms(1,4,5,6)])
  have thr: "threads st = map (worker_record config env) [0..<nat (sint (number_of_runs config))]"
    using st(2) by (simp add: dispatched_worker_record)
  have len: "length (threads st) = nat (sint (number_of_runs config))"
    using thr by simp
  have "length (filter (\<lambda>t. curl_error_code t \<noteq> 0) (threads st)) \<le> length (threads st)"
    by simp
  also have "\<dots> < 2 ^ 31"
    using len assms(2,3) by (simp add: nat_less_iff)
  finally have cnt: "sint (errors st)
                     = int (length (filter (\<lambda>t. curl_error_code t \<noteq> 0) (threads st)))"
    unfolding st(3) by (rule sint_of_nat_int)
  have cnt_w: "sint (errors st) =
               int (length (filter (\<lambda>i. case easy_init (worker env i) of
                                           Some tr \<Rightarrow> curl_result tr \<noteq> 0 | None \<Rightarrow> False)
                              [0..<nat (sint (number_of_runs config))]))"
    using cnt unfolding thr by (simp only: count_failed_workers)
  have lst: "last (stdout_of (out st)) = summary_line (errors st) (number_of_runs config)
            (timespec_diff_macro (clock_program_end env) (clock_program_start env))"
    unfolding st(4) by simp
  have summ: "last (stdout_of (out st)) =
               printf_ld (int (length (filter (\<lambda>t. curl_error_code t \<noteq> 0) (threads st))))
               @ '' errors out of '' @ printf_ld (sint (number_of_runs config))
               @ '' runs in ''
               @ printf_ld (sint (tv_sec (timespec_diff_macro (clock_program_end env)
                                            (clock_program_start env))))
               @ ''.''
               @ printf_0ld 9 (sint (tv_nsec (timespec_diff_macro (clock_program_end env)
                                               (clock_program_start env))))
               @ '' real seconds'' @ [NL]"
    unfolding lst summary_line_def cnt by (rule refl)
  have n: "int (length (threads st)) = sint (number_of_runs config)"
    using len assms(2) by simp
  show ?thesis
    using st(1) n thr cnt cnt_w summ by (intro exI [of _ st] conjI)
qed

text \<open>
  The sample run: two records, those of the two workers, and one error, the failed
  transfer of worker 0.
\<close>

theorem C2_records_and_error_count_witness:
  "\<exists>st. main demo_config demo_env = (Returned 0, st)
      \<and> length (threads st) = 2
      \<and> threads st =
          [\<lparr>thread_id = 1, thread_num = 0, url = Some ''http://localhost'',
            start = \<lparr>tv_sec = 5, tv_nsec = 900000000\<rparr>, end' = \<lparr>tv_sec = 6, tv_nsec = 100000000\<rparr>,
            response_code = 0, os_error_code = 111, curl_error_code = 7,
            curl_error_string = ''Failed to connect'', curl_total = 1234\<rparr>,
           \<lparr>thread_id = 2, thread_num = 1, url = Some ''http://localhost'',
            start = \<lparr>tv_sec = 5, tv_nsec = 900200000\<rparr>, end' = \<lparr>tv_sec = 5, tv_nsec = 950000000\<rparr>,
            response_code = 200, os_error_code = 0, curl_error_code = 0,
            curl_error_string = [], curl_total = 45678\<rparr>]
      \<and> sint (errors st) = 1"
proof -
  have n1: "1 \<le> sint (number_of_runs demo_config)"
    and n2: "sint (number_of_runs demo_config) < 2 ^ 31"
    by (simp_all add: demo_config_def)
  from C2_records_and_error_count [OF demo_valid n1 n2 demo_calloc demo_creates demo_joins]
  obtain st where st: "main demo_config demo_env = (Returned 0, st)"
    "threads st = map (worker_record demo_config demo_env)
                    [0..<nat (sint (number_of_runs demo_config))]"
    "sint (errors st) = int (length (filter (\<lambda>t. curl_error_code t \<noteq> 0) (threads st)))"
    by (elim exE conjE)
  have "map (worker_record demo_config demo_env) [0..<nat (sint (number_of_runs demo_config))]
        = map (\<lambda>j. dispatched demo_config demo_env j calloc_thread_info)
            [0..<nat (sint (number_of_runs demo_config))]"
    by (simp add: dispatched_worker_record)
  then have thr: "threads st =
          [\<lparr>thread_id = 1, thread_num = 0, url = Some ''http://localhost'',
            start = \<lparr>tv_sec = 5, tv_nsec = 900000000\<rparr>, end' = \<lparr>tv_sec = 6, tv_nsec = 100000000\<rparr>,
            response_code = 0, os_error_code = 111, curl_error_code = 7,
            curl_error_string = ''Failed to connect'', curl_total = 1234\<rparr>,
           \<lparr>thread_id = 2, thread_num = 1, url = Some ''http://localhost'',
            start = \<lparr>tv_sec = 5, tv_nsec = 900200000\<rparr>, end' = \<lparr>tv_sec = 5, tv_nsec = 950000000\<rparr>,
            response_code = 200, os_error_code = 0, curl_error_code = 0,
            curl_error_string = [], curl_total = 45678\<rparr>]"
    using st(2) demo_threads by simp
  have len: "length (threads st) = 2" unfolding thr by simp
  have err: "sint (errors st) = 1" unfolding st(3) unfolding thr by simp
  show ?thesis using st(1) len thr err by (intro exI [of _ st] conjI)
qed

end
